theory Spec2Isabelle
  imports Complex_Main "HOL-Library.Sublist"
begin

section \<open>Python strings\<close>

text \<open>
  The client in \<^verbatim>\<open>kdb_tools_nat.py\<close> works on Python \<^verbatim>\<open>str\<close> values. They are modelled
  as \<^typ>\<open>string\<close>, one \<^typ>\<open>char\<close> per code point, so the model covers texts whose code
  points are below 256. On that range \<^verbatim>\<open>str.isspace\<close> (which is also what \<^verbatim>\<open>\s\<close> and
  \<^verbatim>\<open>str.strip()\<close> use) holds of the code points listed in \<open>py_isspace\<close>, and
  \<^verbatim>\<open>str.lower\<close> moves A-Z and the Latin-1 capitals by 32.
\<close>

definition NL :: char where "NL = CHR 0x0A"
definition BS :: char where "BS = CHR 0x5C"
definition DQ :: char where "DQ = CHR 0x22"
definition SQ :: char where "SQ = CHR 0x27"

definition py_isspace :: "char \<Rightarrow> bool" where
  "py_isspace c = ((of_char c :: nat) \<in> {9, 10, 11, 12, 13, 28, 29, 30, 31, 32, 133, 160})"

definition py_lower_char :: "char \<Rightarrow> char" where
  "py_lower_char c =
     (let n = (of_char c :: nat)
      in if (65 \<le> n \<and> n \<le> 90) \<or> (192 \<le> n \<and> n \<le> 222 \<and> n \<noteq> 215)
         then char_of (n + 32) else c)"

definition py_lower :: "string \<Rightarrow> string" where
  "py_lower s = map py_lower_char s"

definition py_strip :: "string \<Rightarrow> string" where
  "py_strip s = rev (dropWhile py_isspace (rev (dropWhile py_isspace s)))"

definition strip_chars :: "char list \<Rightarrow> string \<Rightarrow> string" where
  "strip_chars cs s = rev (dropWhile (\<lambda>c. c \<in> set cs) (rev (dropWhile (\<lambda>c. c \<in> set cs) s)))"

fun starts_with :: "string \<Rightarrow> string \<Rightarrow> bool" where
  "starts_with [] s = True"
| "starts_with (p # ps) [] = False"
| "starts_with (p # ps) (c # cs) = (c = p \<and> starts_with ps cs)"

text \<open>\<open>p in s\<close> for two strings: \<open>p\<close> occurs in \<open>s\<close> as a contiguous run.\<close>

fun py_in :: "string \<Rightarrow> string \<Rightarrow> bool" where
  "py_in p [] = (p = [])"
| "py_in p (c # cs) = (starts_with p (c # cs) \<or> py_in p cs)"

text \<open>
  A prefix test that ignores case, as a regular expression compiled with
  \<^verbatim>\<open>re.IGNORECASE\<close> does on a literal; the pattern is given in lower case.
\<close>

fun ci_prefix :: "string \<Rightarrow> string \<Rightarrow> bool" where
  "ci_prefix [] s = True"
| "ci_prefix (p # ps) [] = False"
| "ci_prefix (p # ps) (c # cs) = (py_lower_char c = p \<and> ci_prefix ps cs)"

fun find_ci :: "string \<Rightarrow> string \<Rightarrow> nat option" where
  "find_ci p [] = (if p = [] then Some 0 else None)"
| "find_ci p (c # cs) =
     (if ci_prefix p (c # cs) then Some 0
      else case find_ci p cs of None \<Rightarrow> None | Some n \<Rightarrow> Some (Suc n))"

text \<open>
  \<^verbatim>\<open>str.replace(old, new)\<close> for a non-empty \<open>old\<close>: the occurrences are replaced from
  the left and do not overlap. The counter is the number of characters of the current
  occurrence still to be skipped.
\<close>

fun replace_from :: "string \<Rightarrow> string \<Rightarrow> nat \<Rightarrow> string \<Rightarrow> string" where
  "replace_from old new k [] = []"
| "replace_from old new (Suc k) (c # cs) = replace_from old new k cs"
| "replace_from old new 0 (c # cs) =
     (if starts_with old (c # cs) then new @ replace_from old new (length old - 1) cs
      else c # replace_from old new 0 cs)"

definition py_replace :: "string \<Rightarrow> string \<Rightarrow> string \<Rightarrow> string" where
  "py_replace old new s = replace_from old new 0 s"

section \<open>Reasoning tags\<close>

text \<open>
  \<^verbatim>\<open>re.sub(r'<think>[\s\S]*?</think>', '', text, flags=re.IGNORECASE)\<close>: every closed
  block is removed, the lazy star ending it at the first closing tag. An opening tag
  with no closing tag after it stays.
\<close>

fun sub_think_from :: "nat \<Rightarrow> string \<Rightarrow> string" where
  "sub_think_from k [] = []"
| "sub_think_from (Suc k) (c # cs) = sub_think_from k cs"
| "sub_think_from 0 (c # cs) =
     (if ci_prefix ''<think>'' (c # cs) then
        (case find_ci ''</think>'' (drop 7 (c # cs)) of
           Some n \<Rightarrow> sub_think_from (6 + n + 8) cs
         | None \<Rightarrow> c # sub_think_from 0 cs)
      else c # sub_think_from 0 cs)"

definition strip_closed_think :: "string \<Rightarrow> string" where
  "strip_closed_think s = sub_think_from 0 s"

text \<open>
  \<^verbatim>\<open>re.sub(r'<think>[\s\S]*$', '', text, flags=re.IGNORECASE)\<close>: the text is cut at the
  first opening tag that is left.
\<close>

fun strip_open_think :: "string \<Rightarrow> string" where
  "strip_open_think [] = []"
| "strip_open_think (c # cs) =
     (if ci_prefix ''<think>'' (c # cs) then [] else c # strip_open_think cs)"

section \<open>The single-query path: cleaning the generated SQL\<close>

text \<open>
  \<^verbatim>\<open>re.search(r'SELECT\s+.+', sql_query, re.IGNORECASE | re.DOTALL)\<close>: the leftmost
  SELECT followed by a white-space character and at least one more character; the match
  runs to the end of the text.
\<close>

fun search_select :: "string \<Rightarrow> string option" where
  "search_select [] = None"
| "search_select (c # cs) =
     (if ci_prefix ''select'' (c # cs) \<and>
         (case drop 6 (c # cs) of w # r # rest \<Rightarrow> py_isspace w | _ \<Rightarrow> False)
      then Some (c # cs) else search_select cs)"

text \<open>
  \<^verbatim>\<open>simple_chat_query\<close>, from the model's response to the query that is executed:
  \<open>None\<close> is the return "Could not generate SQL". On code points below 256,
  \<^verbatim>\<open>sql_query.upper().startswith('SELECT')\<close> is the prefix test that ignores case.
\<close>

definition clean_sql :: "string \<Rightarrow> string option" where
  "clean_sql content =
     (let q0 = py_strip content;
          q1 = strip_open_think (strip_closed_think q0);
          q2 = py_strip (py_replace ''```'' [] (py_replace ''```sql'' [] q1));
          q3 = strip_chars [DQ, SQ] q2;
          q4 = py_replace [BS, DQ] [DQ] q3;
          q5 = py_replace [BS, SQ] [SQ] q4
      in if ci_prefix ''select'' q5 then Some q5
         else (case search_select q5 of
                 Some m \<Rightarrow> Some (py_strip m)
               | None \<Rightarrow> None))"

text \<open>The tool call the single-query path makes for a response, if it makes one.\<close>

definition simple_chat_call :: "string \<Rightarrow> (string \<times> (string \<times> string) list) option" where
  "simple_chat_call content =
     (case clean_sql content of
        None \<Rightarrow> None
      | Some q \<Rightarrow> Some (''kdbx_run_sql_query'', [(''query'', q)]))"

definition fenced_sql_response :: string where
  "fenced_sql_response =
     ''```sql'' @ [NL] @ ''SELECT '' @ [BS, DQ] @ ''sym'' @ [BS, DQ] @ '' FROM daily'' @ [NL] @ ''```''"

definition cleaned_sql_expected :: string where
  "cleaned_sql_expected = ''SELECT '' @ [DQ] @ ''sym'' @ [DQ] @ '' FROM daily''"

section \<open>JSON texts and values\<close>

text \<open>
  The values \<^verbatim>\<open>json.loads\<close> returns. A float is kept as the exact decimal its literal
  denotes (mantissa and power of ten), which is all that truth tests and comparisons of
  this program read. Objects are Python dictionaries: association lists in insertion
  order, without duplicate keys.
\<close>

datatype json =
    JNull
  | JBool bool
  | JInt int
  | JFloat int int
  | JNaN
  | JInf bool
  | JStr string
  | JArr "json list"
  | JObj "(string \<times> json) list"

text \<open>\<^verbatim>\<open>d[k] = v\<close>: a new key goes to the end, a known key keeps its place.\<close>

fun dict_set :: "'k \<Rightarrow> 'v \<Rightarrow> ('k \<times> 'v) list \<Rightarrow> ('k \<times> 'v) list" where
  "dict_set k v [] = [(k, v)]"
| "dict_set k v (p # ps) = (if fst p = k then (k, v) # ps else p # dict_set k v ps)"

definition dict_of_pairs :: "('k \<times> 'v) list \<Rightarrow> ('k \<times> 'v) list" where
  "dict_of_pairs ps = foldl (\<lambda>d p. dict_set (fst p) (snd p) d) [] ps"

definition dict_get :: "('k \<times> 'v) list \<Rightarrow> 'k \<Rightarrow> 'v option" where
  "dict_get d k = map_of d k"

definition json_ws :: "char \<Rightarrow> bool" where
  "json_ws c = (c = CHR '' '' \<or> c = CHR 0x09 \<or> c = CHR 0x0A \<or> c = CHR 0x0D)"

definition skip_ws :: "string \<Rightarrow> string" where
  "skip_ws s = dropWhile json_ws s"

definition is_digit :: "char \<Rightarrow> bool" where
  "is_digit c = (48 \<le> (of_char c :: nat) \<and> (of_char c :: nat) \<le> 57)"

definition digits_val :: "string \<Rightarrow> nat" where
  "digits_val ds = foldl (\<lambda>a c. 10 * a + ((of_char c :: nat) - 48)) 0 ds"

definition hex_val :: "char \<Rightarrow> nat option" where
  "hex_val c =
     (let n = (of_char c :: nat)
      in if 48 \<le> n \<and> n \<le> 57 then Some (n - 48)
         else if 65 \<le> n \<and> n \<le> 70 then Some (n - 55)
         else if 97 \<le> n \<and> n \<le> 102 then Some (n - 87)
         else None)"

definition hex4 :: "string \<Rightarrow> nat option" where
  "hex4 s =
     (case s of
        a # b # c # d # rest \<Rightarrow>
          (case (hex_val a, hex_val b, hex_val c, hex_val d) of
             (Some w, Some x, Some y, Some z) \<Rightarrow> Some (((w * 16 + x) * 16 + y) * 16 + z)
           | _ \<Rightarrow> None)
      | _ \<Rightarrow> None)"

definition unescape :: "char \<Rightarrow> char option" where
  "unescape e =
     (if e = DQ then Some DQ
      else if e = BS then Some BS
      else if e = CHR ''/'' then Some (CHR ''/'')
      else if e = CHR ''b'' then Some (CHR 0x08)
      else if e = CHR ''f'' then Some (CHR 0x0C)
      else if e = CHR ''n'' then Some (CHR 0x0A)
      else if e = CHR ''r'' then Some (CHR 0x0D)
      else if e = CHR ''t'' then Some (CHR 0x09)
      else None)"

text \<open>
  The body of a string literal, after its opening quote: the decoded text and what
  follows the closing quote. As in strict mode, a raw control character is refused.
  An escape \<^verbatim>\<open>\uXXXX\<close> is decoded to the character of that number; the model is exact
  for escapes below 256.
\<close>

fun scan_string :: "string \<Rightarrow> (string \<times> string) option" where
  "scan_string [] = None"
| "scan_string (c # cs) =
     (if c = DQ then Some ([], cs)
      else if c = BS then
        (case cs of
           [] \<Rightarrow> None
         | e # es \<Rightarrow>
             if e = CHR ''u'' then
               (case hex4 es of
                  None \<Rightarrow> None
                | Some n \<Rightarrow>
                    (case scan_string (drop 4 es) of
                       None \<Rightarrow> None
                     | Some (t, r) \<Rightarrow> Some (char_of n # t, r)))
             else
               (case unescape e of
                  None \<Rightarrow> None
                | Some d \<Rightarrow>
                    (case scan_string es of
                       None \<Rightarrow> None
                     | Some (t, r) \<Rightarrow> Some (d # t, r))))
      else if (of_char c :: nat) < 32 then None
      else (case scan_string cs of
              None \<Rightarrow> None
            | Some (t, r) \<Rightarrow> Some (c # t, r)))"

text \<open>
  A number literal, \<^verbatim>\<open>-?(0|[1-9]\d*)(\.\d+)?([eE][-+]?\d+)?\<close>: the longest match at the
  start of the text. A fraction or exponent that lacks its digits is not part of the
  number and is left in the rest.
\<close>

definition scan_int_part :: "string \<Rightarrow> (string \<times> string) option" where
  "scan_int_part s =
     (case s of
        [] \<Rightarrow> None
      | c # cs \<Rightarrow>
          if c = CHR ''0'' then Some ([c], cs)
          else if is_digit c then Some (c # takeWhile is_digit cs, dropWhile is_digit cs)
          else None)"

definition scan_frac :: "string \<Rightarrow> (string \<times> string) option" where
  "scan_frac s =
     (case s of
        c # d # ds \<Rightarrow>
          if c = CHR ''.'' \<and> is_digit d
          then Some (d # takeWhile is_digit ds, dropWhile is_digit ds) else None
      | _ \<Rightarrow> None)"

definition scan_exp :: "string \<Rightarrow> (int \<times> string) option" where
  "scan_exp s =
     (case s of
        [] \<Rightarrow> None
      | c # cs \<Rightarrow>
          if c = CHR ''e'' \<or> c = CHR ''E'' then
            (let neg = (case cs of d # ds \<Rightarrow> d = CHR ''-'' | [] \<Rightarrow> False);
                 signed = (case cs of d # ds \<Rightarrow> d = CHR ''-'' \<or> d = CHR ''+'' | [] \<Rightarrow> False);
                 r = (if signed then tl cs else cs)
             in case r of
                  [] \<Rightarrow> None
                | d # ds \<Rightarrow>
                    if is_digit d then
                      (let v = int (digits_val (d # takeWhile is_digit ds))
                       in Some (if neg then - v else v, dropWhile is_digit ds))
                    else None)
          else None)"

definition scan_number :: "string \<Rightarrow> (json \<times> string) option" where
  "scan_number s =
     (let neg = (case s of c # cs \<Rightarrow> c = CHR ''-'' | [] \<Rightarrow> False);
          s1 = (if neg then tl s else s)
      in case scan_int_part s1 of
           None \<Rightarrow> None
         | Some (ip, r1) \<Rightarrow>
             (let fr = scan_frac r1;
                  fd = (case fr of None \<Rightarrow> [] | Some (ds, r) \<Rightarrow> ds);
                  r2 = (case fr of None \<Rightarrow> r1 | Some (ds, r) \<Rightarrow> r);
                  ex = scan_exp r2;
                  e = (case ex of None \<Rightarrow> 0 | Some (v, r) \<Rightarrow> v);
                  r3 = (case ex of None \<Rightarrow> r2 | Some (v, r) \<Rightarrow> r);
                  m = int (digits_val (ip @ fd));
                  sm = (if neg then - m else m)
              in if fr = None \<and> ex = None then Some (JInt sm, r3)
                 else Some (JFloat sm (e - int (length fd)), r3)))"

text \<open>
  The scanner of \<^verbatim>\<open>json.loads\<close>. The first argument bounds the depth of the calls;
  \<open>json_loads\<close> starts it above twice the length of the text, and the scanner takes at
  least one character in every two calls.
\<close>

fun parse_value :: "nat \<Rightarrow> string \<Rightarrow> (json \<times> string) option"
  and parse_elems :: "nat \<Rightarrow> string \<Rightarrow> (json list \<times> string) option"
  and parse_pairs :: "nat \<Rightarrow> string \<Rightarrow> ((string \<times> json) list \<times> string) option"
where
  "parse_value 0 s = None"
| "parse_value (Suc n) s =
     (case s of
        [] \<Rightarrow> None
      | c # cs \<Rightarrow>
          if c = DQ then
            (case scan_string cs of
               None \<Rightarrow> None
             | Some (t, r) \<Rightarrow> Some (JStr t, r))
          else if c = CHR ''{'' then
            (case skip_ws cs of
               [] \<Rightarrow> None
             | d # ds \<Rightarrow>
                 if d = CHR ''}'' then Some (JObj [], ds)
                 else if d = DQ then
                   (case parse_pairs n (d # ds) of
                      None \<Rightarrow> None
                    | Some (ps, r) \<Rightarrow> Some (JObj (dict_of_pairs ps), r))
                 else None)
          else if c = CHR ''['' then
            (case skip_ws cs of
               [] \<Rightarrow> None
             | d # ds \<Rightarrow>
                 if d = CHR '']'' then Some (JArr [], ds)
                 else
                   (case parse_elems n (d # ds) of
                      None \<Rightarrow> None
                    | Some (vs, r) \<Rightarrow> Some (JArr vs, r)))
          else if starts_with ''null'' s then Some (JNull, drop 4 s)
          else if starts_with ''true'' s then Some (JBool True, drop 4 s)
          else if starts_with ''false'' s then Some (JBool False, drop 5 s)
          else if starts_with ''NaN'' s then Some (JNaN, drop 3 s)
          else if starts_with ''Infinity'' s then Some (JInf True, drop 8 s)
          else if starts_with ''-Infinity'' s then Some (JInf False, drop 9 s)
          else scan_number s)"
| "parse_elems 0 s = None"
| "parse_elems (Suc n) s =
     (case parse_value n s of
        None \<Rightarrow> None
      | Some (v, r) \<Rightarrow>
          (case skip_ws r of
             [] \<Rightarrow> None
           | d # ds \<Rightarrow>
               if d = CHR '']'' then Some ([v], ds)
               else if d = CHR '','' then
                 (case parse_elems n (skip_ws ds) of
                    None \<Rightarrow> None
                  | Some (vs, r') \<Rightarrow> Some (v # vs, r'))
               else None))"
| "parse_pairs 0 s = None"
| "parse_pairs (Suc n) s =
     (case s of
        [] \<Rightarrow> None
      | q # qs \<Rightarrow>
          if q \<noteq> DQ then None
          else
            (case scan_string qs of
               None \<Rightarrow> None
             | Some (k, r) \<Rightarrow>
                 (case skip_ws r of
                    [] \<Rightarrow> None
                  | c # cs \<Rightarrow>
                      if c \<noteq> CHR '':'' then None
                      else
                        (case parse_value n (skip_ws cs) of
                           None \<Rightarrow> None
                         | Some (v, r') \<Rightarrow>
                             (case skip_ws r' of
                                [] \<Rightarrow> None
                              | d # ds \<Rightarrow>
                                  if d = CHR ''}'' then Some ([(k, v)], ds)
                                  else if d = CHR '','' then
                                    (case parse_pairs n (skip_ws ds) of
                                       None \<Rightarrow> None
                                     | Some (ps, r'') \<Rightarrow> Some ((k, v) # ps, r''))
                                  else None)))))"

text \<open>
  \<^verbatim>\<open>json.loads(s)\<close>: \<open>None\<close> is \<^verbatim>\<open>JSONDecodeError\<close>. White space may surround the one
  value; anything else after it is an error.
\<close>

definition json_loads :: "string \<Rightarrow> json option" where
  "json_loads s =
     (case parse_value (Suc (2 * length s)) (skip_ws s) of
        None \<Rightarrow> None
      | Some (v, r) \<Rightarrow> if skip_ws r = [] then Some v else None)"

section \<open>The plan extractor\<close>

text \<open>
  \<^verbatim>\<open>re.search(r'```(?:json)?\s*(\{[\s\S]*\})\s*```', text)\<close>. At a fence, the optional
  word and the white space are taken, an opening brace must follow, and the greedy star
  ends the group at the last closing brace that is followed by white space and a fence.
  The search returns the group of the leftmost match.
\<close>

definition close_fence :: "string \<Rightarrow> bool" where
  "close_fence s = starts_with ''```'' (dropWhile py_isspace s)"

fun block_end :: "string \<Rightarrow> nat option" where
  "block_end [] = None"
| "block_end (c # cs) =
     (case block_end cs of
        Some n \<Rightarrow> Some (Suc n)
      | None \<Rightarrow> if c = CHR ''}'' \<and> close_fence cs then Some 1 else None)"

definition fence_match :: "string \<Rightarrow> string option" where
  "fence_match s =
     (if starts_with ''```'' s then
        (let r = drop 3 s;
             r1 = (if starts_with ''json'' r then drop 4 r else r)
         in case dropWhile py_isspace r1 of
              [] \<Rightarrow> None
            | c # cs \<Rightarrow>
                if c = CHR ''{'' then
                  (case block_end cs of
                     None \<Rightarrow> None
                   | Some n \<Rightarrow> Some (c # take n cs))
                else None)
      else None)"

fun code_block_search :: "string \<Rightarrow> string option" where
  "code_block_search [] = None"
| "code_block_search (c # cs) =
     (case fence_match (c # cs) of
        Some g \<Rightarrow> Some g
      | None \<Rightarrow> code_block_search cs)"

text \<open>\<^verbatim>\<open>text.find(c)\<close> and \<^verbatim>\<open>text.rfind(c)\<close>, with \<open>None\<close> for -1.\<close>

fun py_find :: "char \<Rightarrow> string \<Rightarrow> nat option" where
  "py_find x [] = None"
| "py_find x (c # cs) =
     (if c = x then Some 0 else case py_find x cs of None \<Rightarrow> None | Some n \<Rightarrow> Some (Suc n))"

fun py_rfind :: "char \<Rightarrow> string \<Rightarrow> nat option" where
  "py_rfind x [] = None"
| "py_rfind x (c # cs) =
     (case py_rfind x cs of
        Some n \<Rightarrow> Some (Suc n)
      | None \<Rightarrow> if c = x then Some 0 else None)"

definition py_slice :: "nat \<Rightarrow> nat \<Rightarrow> 'a list \<Rightarrow> 'a list" where
  "py_slice i j xs = take (j - i) (drop i xs)"

text \<open>
  The balanced-brace scan: \<open>i\<close> is the index of the next character, \<open>depth\<close> the
  counter (it may go below zero) and \<open>start\<close> the index of the current opening brace,
  \<open>None\<close> for -1.
\<close>

fun balanced_scan :: "string \<Rightarrow> nat \<Rightarrow> int \<Rightarrow> nat option \<Rightarrow> string \<Rightarrow> string option" where
  "balanced_scan text i depth start [] = None"
| "balanced_scan text i depth start (c # cs) =
     (if c = CHR ''{'' then
        balanced_scan text (Suc i) (depth + 1) (if depth = 0 then Some i else start) cs
      else if c = CHR ''}'' then
        (case (if depth - 1 = 0 then start else None) of
           Some st \<Rightarrow>
             (let candidate = py_slice st (Suc i) text
              in if json_loads candidate \<noteq> None then Some candidate
                 else balanced_scan text (Suc i) (depth - 1) None cs)
         | None \<Rightarrow> balanced_scan text (Suc i) (depth - 1) start cs)
      else balanced_scan text (Suc i) depth start cs)"

text \<open>\<^verbatim>\<open>_extract_json\<close>; \<open>None\<close> is the Python \<^verbatim>\<open>None\<close>.\<close>

definition fenced_candidate :: "string \<Rightarrow> string option" where
  "fenced_candidate text =
     (case code_block_search text of
        None \<Rightarrow> None
      | Some g \<Rightarrow>
          (let candidate = py_strip g
           in if json_loads candidate \<noteq> None then Some candidate else None))"

definition extract_json :: "string \<Rightarrow> string option" where
  "extract_json original_text =
     (let text = py_strip (strip_open_think (strip_closed_think original_text))
      in if text = [] then None
         else
           (case fenced_candidate text of
              Some candidate \<Rightarrow> Some candidate
            | None \<Rightarrow>
                (case py_find (CHR ''{'') text of
                   None \<Rightarrow> None
                 | Some first_brace \<Rightarrow>
                     (case py_rfind (CHR ''}'') text of
                        None \<Rightarrow> None
                      | Some last_brace \<Rightarrow>
                          if last_brace \<le> first_brace then None
                          else
                            (let candidate = py_slice first_brace (Suc last_brace) text
                             in if json_loads candidate \<noteq> None then Some candidate
                                else balanced_scan text 0 0 None text)))))"

definition json_a1 :: string where
  \<open>json_a1 = ''{"a":1}''\<close>

definition input_fenced :: string where
  "input_fenced = ''```json'' @ [NL] @ json_a1 @ [NL] @ ''```''"

definition input_embedded :: string where
  "input_embedded = ''blah '' @ json_a1 @ '' blah''"

definition json_nested :: string where
  \<open>json_nested = ''{"a": {"b": 1}}''\<close>

definition input_trailing :: string where
  "input_trailing = json_nested @ '' trailing junk''"

definition input_open_think :: string where
  "input_open_think = ''<think>reasoning '' @ json_a1"

section \<open>Python truth and equality on parsed values\<close>

text \<open>The truth value Python gives a parsed value in \<^verbatim>\<open>if v\<close>; \<^verbatim>\<open>None\<close> is \<open>JNull\<close>.\<close>

fun py_truthy :: "json \<Rightarrow> bool" where
  "py_truthy JNull = False"
| "py_truthy (JBool b) = b"
| "py_truthy (JInt i) = (i \<noteq> 0)"
| "py_truthy (JFloat m e) = (m \<noteq> 0)"
| "py_truthy JNaN = True"
| "py_truthy (JInf p) = True"
| "py_truthy (JStr s) = (s \<noteq> [])"
| "py_truthy (JArr vs) = (vs \<noteq> [])"
| "py_truthy (JObj d) = (d \<noteq> [])"

fun num_of :: "json \<Rightarrow> (int \<times> int) option" where
  "num_of (JBool b) = Some (if b then 1 else 0, 0)"
| "num_of (JInt i) = Some (i, 0)"
| "num_of (JFloat m e) = Some (m, e)"
| "num_of v = None"

definition num_eq :: "int \<times> int \<Rightarrow> int \<times> int \<Rightarrow> bool" where
  "num_eq a b =
     (let e = min (snd a) (snd b)
      in fst a * 10 ^ nat (snd a - e) = fst b * 10 ^ nat (snd b - e))"

text \<open>
  \<open>==\<close> as list membership uses it: numbers and booleans compare by value, lists
  element by element, dictionaries key by key. The one NaN object of the decoder is
  found by identity.
\<close>

fun py_eq :: "json \<Rightarrow> json \<Rightarrow> bool"
  and py_eq_list :: "json list \<Rightarrow> json list \<Rightarrow> bool"
  and py_eq_at :: "string \<Rightarrow> json \<Rightarrow> (string \<times> json) list \<Rightarrow> bool"
  and py_eq_sub :: "(string \<times> json) list \<Rightarrow> (string \<times> json) list \<Rightarrow> bool"
where
  "py_eq (JArr xs) w = (case w of JArr ys \<Rightarrow> py_eq_list xs ys | _ \<Rightarrow> False)"
| "py_eq (JObj d) w =
     (case w of JObj d' \<Rightarrow> length d = length d' \<and> py_eq_sub d d' | _ \<Rightarrow> False)"
| "py_eq (JStr s) w = (w = JStr s)"
| "py_eq JNull w = (w = JNull)"
| "py_eq JNaN w = (w = JNaN)"
| "py_eq (JInf p) w = (w = JInf p)"
| "py_eq (JBool b) w = (case num_of w of Some n \<Rightarrow> num_eq (if b then 1 else 0, 0) n | None \<Rightarrow> False)"
| "py_eq (JInt i) w = (case num_of w of Some n \<Rightarrow> num_eq (i, 0) n | None \<Rightarrow> False)"
| "py_eq (JFloat m e) w = (case num_of w of Some n \<Rightarrow> num_eq (m, e) n | None \<Rightarrow> False)"
| "py_eq_list [] ys = (ys = [])"
| "py_eq_list (x # xs) ys = (case ys of [] \<Rightarrow> False | y # ys' \<Rightarrow> py_eq x y \<and> py_eq_list xs ys')"
| "py_eq_at k v [] = False"
| "py_eq_at k v (p # ps) = (if fst p = k then py_eq v (snd p) else py_eq_at k v ps)"
| "py_eq_sub [] d' = True"
| "py_eq_sub (p # ps) d' = (py_eq_at (fst p) (snd p) d' \<and> py_eq_sub ps d')"

definition py_member :: "json \<Rightarrow> json list \<Rightarrow> bool" where
  "py_member v vs = list_ex (py_eq v) vs"

section \<open>Tool results\<close>

type_synonym arguments = "(string \<times> json) list"

text \<open>
  An item of \<^verbatim>\<open>result.content\<close> as \<^verbatim>\<open>call_tool\<close> tests it: it has a \<^verbatim>\<open>text\<close> attribute;
  or a \<^verbatim>\<open>type\<close> and a \<^verbatim>\<open>data\<close>; or a \<^verbatim>\<open>resource\<close> (its uri, text and mimeType after the
  defaults); or none of these, and then \<^verbatim>\<open>str(item)\<close> is used.
\<close>

datatype raw_item =
    RText string
  | RData string string
  | RResource string string string
  | ROther string

text \<open>
  An item of the \<^verbatim>\<open>content\<close> list of a result dictionary: the three dictionaries
  \<^verbatim>\<open>call_tool\<close> builds, and a plain string, which only a result that arrives as a
  dictionary can hold.
\<close>

datatype content_item =
    CText string
  | CData string string
  | CResource string string string
  | CStr string

text \<open>\<^verbatim>\<open>isinstance(item, dict) and item.get("type") == "text"\<close> and \<^verbatim>\<open>item.get("text", "")\<close>.\<close>

fun is_text_item :: "content_item \<Rightarrow> bool" where
  "is_text_item (CText t) = True"
| "is_text_item (CData ty d) = (ty = ''text'')"
| "is_text_item (CResource u t m) = False"
| "is_text_item (CStr s) = False"

fun item_text :: "content_item \<Rightarrow> string" where
  "item_text (CText t) = t"
| "item_text (CData ty d) = []"
| "item_text (CResource u t m) = t"
| "item_text (CStr s) = []"

fun convert_item :: "raw_item \<Rightarrow> content_item" where
  "convert_item (RText t) = CText t"
| "convert_item (RData ty d) = CData ty d"
| "convert_item (RResource u t m) = CResource u t m"
| "convert_item (ROther s) = CText s"

text \<open>
  What \<^verbatim>\<open>session.call_tool\<close> returns: an object, with the attributes \<^verbatim>\<open>isError\<close>,
  \<^verbatim>\<open>content\<close> and \<^verbatim>\<open>structuredContent\<close> it may have (\<open>None\<close>: no such attribute) and its
  \<^verbatim>\<open>str()\<close>; or a dictionary, of which the entries this client reads are kept.
\<close>

record result_dict =
  d_isError :: "bool option"
  d_content :: "content_item list option"
  d_error :: "string option"
  d_structuredContent :: "json option"

datatype raw_result =
    RObj "bool option" "raw_item list option" "json option" string
  | RDict result_dict

text \<open>
  The session either raises (\<open>Raised\<close> carries \<^verbatim>\<open>str(e)\<close>) or returns. Every call opens
  its own session, so a connection failure is a \<open>Raised\<close> of that call.
\<close>

datatype session_outcome = Raised string | Returned raw_result

text \<open>The dictionary \<^verbatim>\<open>call_tool\<close> returns; an optional field is a key that may be absent.\<close>

record tool_result =
  r_tool :: string
  r_arguments :: arguments
  r_isError :: bool
  r_content :: "content_item list option"
  r_error :: "string option"
  r_structuredContent :: "json option"
  r_purpose :: "string option"

fun py_join :: "string \<Rightarrow> string list \<Rightarrow> string" where
  "py_join sep [] = []"
| "py_join sep [x] = x"
| "py_join sep (x # y # ys) = x @ sep @ py_join sep (y # ys)"

definition error_texts :: "content_item list \<Rightarrow> string list" where
  "error_texts content_list = map item_text (filter is_text_item content_list)"

text \<open>
  \<^verbatim>\<open>call_tool\<close>, from the outcome of the session to the dictionary returned. The
  \<^verbatim>\<open>except Exception\<close> branch is the first case. In the object case the chain
  \<^verbatim>\<open>if hasattr(result, 'structuredContent') ... elif isinstance(result, dict) ... else\<close>
  replaces the content by \<^verbatim>\<open>str(result)\<close> when the attribute is missing.
\<close>

definition call_tool_response :: "string \<Rightarrow> arguments \<Rightarrow> session_outcome \<Rightarrow> tool_result" where
  "call_tool_response tool_name args outcome =
     (case outcome of
        Raised msg \<Rightarrow>
          \<lparr>r_tool = tool_name, r_arguments = args, r_isError = True,
           r_content = Some [CText (''Tool execution error: '' @ msg)],
           r_error = Some msg, r_structuredContent = None, r_purpose = None\<rparr>
      | Returned (RObj is_err cont structured repr) \<Rightarrow>
          (let flag = (case is_err of None \<Rightarrow> False | Some b \<Rightarrow> b);
               content_list = map_option (map convert_item) cont;
               err = (case content_list of
                        None \<Rightarrow> None
                      | Some cl \<Rightarrow>
                          if flag \<and> cl \<noteq> [] \<and> error_texts cl \<noteq> []
                          then Some (py_join '' '' (error_texts cl)) else None)
           in \<lparr>r_tool = tool_name, r_arguments = args, r_isError = flag,
               r_content = (case structured of
                              Some sc \<Rightarrow> content_list
                            | None \<Rightarrow> Some [CText repr]),
               r_error = err, r_structuredContent = structured, r_purpose = None\<rparr>)
      | Returned (RDict d) \<Rightarrow>
          \<lparr>r_tool = tool_name, r_arguments = args,
           r_isError = (case d_isError d of None \<Rightarrow> False | Some b \<Rightarrow> b),
           r_content = d_content d, r_error = d_error d,
           r_structuredContent = d_structuredContent d, r_purpose = None\<rparr>)"

section \<open>Client state, plans and the outside world\<close>

datatype exn = KeyError | TypeError | SessionError string

text \<open>
  An entry of the data-content cache, the dictionary \<^verbatim>\<open>table_info\<close>: \<^verbatim>\<open>columns\<close> is always
  set, every other key may be absent. \<open>ti_date_range\<close> holds the two values whose
  \<^verbatim>\<open>str()\<close> the code stores under \<^verbatim>\<open>min\<close> and \<^verbatim>\<open>max\<close>; \<open>ti_sample_text\<close> is the
  one-entry dictionary \<^verbatim>\<open>{text_col: samples[:10]}\<close>.
\<close>

record table_info =
  ti_columns :: "string list"
  ti_row_count :: "json option"
  ti_symbols :: "json list option"
  ti_symbol_column :: "string option"
  ti_date_range :: "(json \<times> json) option"
  ti_date_column :: "string option"
  ti_text_columns :: "string list option"
  ti_sample_text :: "(string \<times> json list) option"

type_synonym cache = "(string \<times> table_info) list"

text \<open>
  A resource as \<^verbatim>\<open>_discover_schema\<close> stores it; the annotations dictionary is its two
  optional entries. A priority is a float, compared here as the rational it denotes.
\<close>

record resource =
  res_uri :: string
  res_name :: string
  res_description :: string
  res_mimeType :: string
  res_audience :: "string list option"
  res_priority :: "rat option"

text \<open>
  A tool of the server: \<open>t_parameters\<close> is the parameter block that
  \<^verbatim>\<open>_build_tools_description\<close> renders from the tool's input schema.
\<close>

record tool_info =
  t_name :: string
  t_description :: string
  t_parameters :: string

text \<open>
  A plan with the fields of the documented type: \<open>None\<close> is an absent (or null) key,
  \<open>p_data_available = Some False\<close> is the test \<^verbatim>\<open>plan.get("data_available") is False\<close>.
\<close>

record step =
  s_tool :: string
  s_arguments :: arguments
  s_purpose :: string

record plan =
  p_reasoning :: "string option"
  p_data_available :: "bool option"
  p_limitations :: "string option"
  p_steps :: "step list"

text \<open>
  The values \<^verbatim>\<open>_plan_tool_usage\<close> puts into \<^verbatim>\<open>TOOL_SELECTION_PROMPT\<close>. The cache stands
  for its rendering by \<^verbatim>\<open>get_data_content_description\<close>.
\<close>

record plan_prompt =
  pp_tools_description :: string
  pp_schema_description :: string
  pp_data_content :: cache
  pp_sql_guidance :: string
  pp_additional_context :: string
  pp_user_query :: string

text \<open>Everything the client asks of the server and of the language model, in order.\<close>

datatype event =
    ListTools
  | ListResources
  | ReadResource string
  | ToolCall string arguments
  | PlanCall plan_prompt
  | SynthesisCall string "tool_result list"

text \<open>
  The outside world answers as a function of what has happened so far. \<open>w_plan\<close> is
  the model call of \<^verbatim>\<open>_plan_tool_usage\<close> together with the reading of its response (it
  returns the plan dictionary, also on a failure); \<open>w_synthesize\<close> is
  \<^verbatim>\<open>_synthesize_results\<close>; \<open>w_read_resource\<close> is \<^verbatim>\<open>_read_resource\<close>, which returns the
  empty text on a failure; \<open>w_schema_tables\<close> is the regular-expression reader
  \<^verbatim>\<open>_extract_tables_and_columns_from_schema\<close>, applied to the schema text.
\<close>

record world =
  w_list_tools :: "event list \<Rightarrow> string + tool_info list"
  w_list_resources :: "event list \<Rightarrow> string + resource list"
  w_read_resource :: "event list \<Rightarrow> string \<Rightarrow> string"
  w_call_tool :: "event list \<Rightarrow> string \<Rightarrow> arguments \<Rightarrow> session_outcome"
  w_plan :: "event list \<Rightarrow> plan_prompt \<Rightarrow> plan"
  w_synthesize :: "event list \<Rightarrow> string \<Rightarrow> tool_result list \<Rightarrow> string"
  w_schema_tables :: "string \<Rightarrow> (string \<times> string list) list"

text \<open>The attributes of \<^verbatim>\<open>KDBNATClient\<close>.\<close>

record client =
  tools :: "tool_info list"
  tools_description :: string
  resources :: "resource list"
  schema_description :: string
  sql_guidance :: string
  additional_context :: "(string \<times> string) list"
  initialized :: bool
  data_content :: cache
  data_content_discovered :: bool
  symbol_patterns :: "string list"
  date_patterns :: "string list"
  text_patterns :: "string list"

definition DEFAULT_SYMBOL_PATTERNS :: "string list" where
  "DEFAULT_SYMBOL_PATTERNS = [''sym'', ''symbol'', ''ticker'', ''stock'', ''instrument'', ''security'']"

definition DEFAULT_DATE_PATTERNS :: "string list" where
  "DEFAULT_DATE_PATTERNS = [''date'', ''datetime'', ''time'', ''timestamp'', ''dt'', ''ts'']"

definition DEFAULT_TEXT_PATTERNS :: "string list" where
  "DEFAULT_TEXT_PATTERNS =
     [''title'', ''summary'', ''description'', ''text'', ''content'', ''name'',
      ''headline'', ''body'', ''message'', ''comment'', ''note'']"

text \<open>\<^verbatim>\<open>__init__\<close>; an empty or missing pattern list gives the default.\<close>

definition new_client :: "string list \<Rightarrow> string list \<Rightarrow> string list \<Rightarrow> client" where
  "new_client sym_pats dat_pats txt_pats =
     \<lparr>tools = [], tools_description = [], resources = [], schema_description = [],
      sql_guidance = [], additional_context = [], initialized = False,
      data_content = [], data_content_discovered = False,
      symbol_patterns = (if sym_pats = [] then DEFAULT_SYMBOL_PATTERNS else sym_pats),
      date_patterns = (if dat_pats = [] then DEFAULT_DATE_PATTERNS else dat_pats),
      text_patterns = (if txt_pats = [] then DEFAULT_TEXT_PATTERNS else txt_pats)\<rparr>"

definition call_tool :: "world \<Rightarrow> event list \<Rightarrow> string \<Rightarrow> arguments \<Rightarrow> tool_result \<times> event list" where
  "call_tool w trace tool_name args =
     (call_tool_response tool_name args (w_call_tool w trace tool_name args),
      trace @ [ToolCall tool_name args])"

definition run_sql :: "world \<Rightarrow> event list \<Rightarrow> string \<Rightarrow> tool_result \<times> event list" where
  "run_sql w trace q = call_tool w trace ''kdbx_run_sql_query'' [(''query'', JStr q)]"

definition get_content :: "tool_result \<Rightarrow> content_item list" where
  "get_content result = (case r_content result of None \<Rightarrow> [] | Some items \<Rightarrow> items)"

text \<open>\<^verbatim>\<open>result.get("error")\<close> as a truth value, and the test of every probe.\<close>

definition has_error :: "tool_result \<Rightarrow> bool" where
  "has_error result = (case r_error result of None \<Rightarrow> False | Some msg \<Rightarrow> msg \<noteq> [])"

definition probe_ok :: "tool_result \<Rightarrow> bool" where
  "probe_ok result = (\<not> has_error result \<and> \<not> r_isError result)"

section \<open>Reading query results\<close>

text \<open>
  The common start of the four readers, for one content item: the value of \<^verbatim>\<open>data\<close>, or
  \<open>None\<close> when the item is passed over (it is not a text item, its text does not parse
  or is not an object, or \<^verbatim>\<open>data\<close> is a string that does not parse).
\<close>

definition item_data :: "content_item \<Rightarrow> json option" where
  "item_data item =
     (if is_text_item item then
        (case json_loads (item_text item) of
           Some (JObj d) \<Rightarrow>
             (case dict_get d ''data'' of
                None \<Rightarrow> Some (JArr [])
              | Some (JStr s) \<Rightarrow> json_loads s
              | Some v \<Rightarrow> Some v)
         | _ \<Rightarrow> None)
      else None)"

text \<open>
  \<^verbatim>\<open>data and len(data) > 0\<close> followed by \<^verbatim>\<open>data[0]\<close>. A false value, or one without a
  length (the \<^verbatim>\<open>TypeError\<close> is caught), gives no row; a non-empty dictionary has no key
  \<^verbatim>\<open>0\<close>, and the \<^verbatim>\<open>KeyError\<close> is not caught by the reader.
\<close>

datatype first_row = NoRow | RaisesKeyError | Row json

fun first_of :: "json \<Rightarrow> first_row" where
  "first_of (JArr vs) = (case vs of [] \<Rightarrow> NoRow | v # rest \<Rightarrow> Row v)"
| "first_of (JStr s) = (case s of [] \<Rightarrow> NoRow | c # rest \<Rightarrow> Row (JStr [c]))"
| "first_of (JObj d) = (if d = [] then NoRow else RaisesKeyError)"
| "first_of v = NoRow"

fun columns_from_items :: "content_item list \<Rightarrow> exn + string list" where
  "columns_from_items [] = Inr []"
| "columns_from_items (item # items) =
     (case item_data item of
        None \<Rightarrow> columns_from_items items
      | Some data \<Rightarrow>
          (case first_of data of
             RaisesKeyError \<Rightarrow> Inl KeyError
           | Row (JObj d) \<Rightarrow> Inr (map fst d)
           | _ \<Rightarrow> columns_from_items items))"

definition extract_columns_from_result :: "tool_result \<Rightarrow> exn + string list" where
  "extract_columns_from_result result = columns_from_items (get_content result)"

text \<open>\<open>Inr None\<close> is the return value \<^verbatim>\<open>None\<close>, also for a null under the key.\<close>

fun single_value_from_items :: "string \<Rightarrow> content_item list \<Rightarrow> exn + json option" where
  "single_value_from_items key [] = Inr None"
| "single_value_from_items key (item # items) =
     (case item_data item of
        None \<Rightarrow> single_value_from_items key items
      | Some data \<Rightarrow>
          (case first_of data of
             RaisesKeyError \<Rightarrow> Inl KeyError
           | Row (JObj d) \<Rightarrow>
               Inr (case dict_get d key of
                      None \<Rightarrow> None
                    | Some JNull \<Rightarrow> None
                    | Some v \<Rightarrow> Some v)
           | _ \<Rightarrow> single_value_from_items key items))"

definition extract_single_value :: "tool_result \<Rightarrow> string \<Rightarrow> exn + json option" where
  "extract_single_value result key = single_value_from_items key (get_content result)"

text \<open>
  \<^verbatim>\<open>for row in data\<close>: only a list can yield dictionaries (a string yields characters, a
  dictionary its keys, and anything else raises the \<^verbatim>\<open>TypeError\<close> that is caught).
\<close>

definition rows_of :: "json \<Rightarrow> json list" where
  "rows_of data = (case data of JArr vs \<Rightarrow> vs | _ \<Rightarrow> [])"

definition add_value :: "string \<Rightarrow> json list \<Rightarrow> json \<Rightarrow> json list" where
  "add_value column vals row =
     (case row of
        JObj d \<Rightarrow>
          (case dict_get d column of
             None \<Rightarrow> vals
           | Some val \<Rightarrow>
               if py_truthy val \<and> \<not> py_member val vals then vals @ [val] else vals)
      | _ \<Rightarrow> vals)"

definition extract_column_values :: "tool_result \<Rightarrow> string \<Rightarrow> json list" where
  "extract_column_values result column =
     foldl (\<lambda>vals item.
              case item_data item of
                None \<Rightarrow> vals
              | Some data \<Rightarrow> foldl (add_value column) vals (rows_of data))
           [] (get_content result)"

text \<open>The dictionary \<^verbatim>\<open>_extract_date_range\<close> returns: it may also carry a row count.\<close>

record date_info =
  di_date_range :: "(json \<times> json) option"
  di_row_count :: "json option"

definition no_date_info :: date_info where
  "no_date_info = \<lparr>di_date_range = None, di_row_count = None\<rparr>"

text \<open>
  The first row read by \<^verbatim>\<open>_extract_date_range\<close>; \<open>None\<close> is a \<^verbatim>\<open>TypeError\<close>, which the
  reader catches: \<^verbatim>\<open>in\<close> on a value that is no container, or an index by a key into a
  string or a list.
\<close>

fun row_date_info :: "json \<Rightarrow> date_info option" where
  "row_date_info (JObj d) =
     Some \<lparr>di_date_range =
             (case dict_get d ''min_date'' of
                None \<Rightarrow> None
              | Some lo \<Rightarrow>
                  (case dict_get d ''max_date'' of
                     None \<Rightarrow> None
                   | Some hi \<Rightarrow> Some (lo, hi))),
           di_row_count = dict_get d ''row_count''\<rparr>"
| "row_date_info (JStr s) =
     (if py_in ''min_date'' s \<and> py_in ''max_date'' s then None
      else if py_in ''row_count'' s then None
      else Some no_date_info)"
| "row_date_info (JArr vs) =
     (if py_member (JStr ''min_date'') vs \<and> py_member (JStr ''max_date'') vs then None
      else if py_member (JStr ''row_count'') vs then None
      else Some no_date_info)"
| "row_date_info v = None"

fun date_range_from_items :: "content_item list \<Rightarrow> exn + date_info" where
  "date_range_from_items [] = Inr no_date_info"
| "date_range_from_items (item # items) =
     (case item_data item of
        None \<Rightarrow> date_range_from_items items
      | Some data \<Rightarrow>
          (case first_of data of
             NoRow \<Rightarrow> date_range_from_items items
           | RaisesKeyError \<Rightarrow> Inl KeyError
           | Row row \<Rightarrow>
               (case row_date_info row of
                  None \<Rightarrow> date_range_from_items items
                | Some info \<Rightarrow> Inr info)))"

definition extract_date_range :: "tool_result \<Rightarrow> exn + date_info" where
  "extract_date_range result = date_range_from_items (get_content result)"

section \<open>Probing the data content of a table\<close>

text \<open>
  A step of the \<^verbatim>\<open>try\<close> body of the per-table loop of \<^verbatim>\<open>discover_data_content\<close> returns
  the updated \<^verbatim>\<open>table_info\<close> or the exception raised, and the trace. An exception
  ends the body.
\<close>

type_synonym 'a probed = "(exn + 'a) \<times> event list"

definition and_then :: "'a probed \<Rightarrow> ('a \<Rightarrow> event list \<Rightarrow> 'b probed) \<Rightarrow> 'b probed" where
  "and_then r f = (case r of (Inl e, trace) \<Rightarrow> (Inl e, trace) | (Inr x, trace) \<Rightarrow> f x trace)"

text \<open>\<^verbatim>\<open>[c for c in columns if c.lower() in patterns]\<close>: membership in the list.\<close>

definition matching_columns :: "string list \<Rightarrow> string list \<Rightarrow> string list" where
  "matching_columns patterns cols = filter (\<lambda>c. py_lower c \<in> set patterns) cols"

text \<open>The query texts of the probes.\<close>

definition select_one_query :: "string \<Rightarrow> string" where
  "select_one_query table = ''SELECT * FROM '' @ table @ '' LIMIT 1''"

definition count_query :: "string \<Rightarrow> string" where
  "count_query table = ''SELECT COUNT(*) as row_count FROM '' @ table"

definition distinct_query :: "string \<Rightarrow> string \<Rightarrow> string" where
  "distinct_query sym_col table = ''SELECT DISTINCT '' @ sym_col @ '' FROM '' @ table @ '' LIMIT 100''"

definition range_query :: "string \<Rightarrow> string \<Rightarrow> string" where
  "range_query date_col table =
     ''SELECT MIN('' @ date_col @ '') as min_date, MAX('' @ date_col @ '') as max_date FROM '' @ table"

definition sample_query :: "string \<Rightarrow> string \<Rightarrow> string \<Rightarrow> string" where
  "sample_query text_col table order_clause =
     ''SELECT DISTINCT '' @ text_col @ '' FROM '' @ table @ '' '' @ order_clause @ '' LIMIT 10''"

definition sql_event :: "string \<Rightarrow> event" where
  "sql_event q = ToolCall ''kdbx_run_sql_query'' [(''query'', JStr q)]"

definition probe_columns :: "world \<Rightarrow> string \<Rightarrow> string list \<Rightarrow> event list \<Rightarrow> (string list) probed" where
  "probe_columns w table schema_columns trace =
     (if schema_columns = [] then
        (case run_sql w trace (select_one_query table) of
           (result, trace') \<Rightarrow> (extract_columns_from_result result, trace'))
      else (Inr schema_columns, trace))"

definition new_table_info :: "string list \<Rightarrow> table_info" where
  "new_table_info cols =
     \<lparr>ti_columns = cols, ti_row_count = None, ti_symbols = None, ti_symbol_column = None,
      ti_date_range = None, ti_date_column = None, ti_text_columns = None,
      ti_sample_text = None\<rparr>"

definition probe_row_count :: "world \<Rightarrow> string \<Rightarrow> table_info \<Rightarrow> event list \<Rightarrow> table_info probed" where
  "probe_row_count w table info trace =
     (case run_sql w trace (count_query table) of
        (result, trace') \<Rightarrow>
          if probe_ok result then
            (case extract_single_value result ''row_count'' of
               Inl e \<Rightarrow> (Inl e, trace')
             | Inr None \<Rightarrow> (Inr info, trace')
             | Inr (Some count_info) \<Rightarrow> (Inr (info\<lparr>ti_row_count := Some count_info\<rparr>), trace'))
          else (Inr info, trace'))"

definition probe_symbols ::
  "world \<Rightarrow> client \<Rightarrow> string \<Rightarrow> string list \<Rightarrow> table_info \<Rightarrow> event list \<Rightarrow> table_info probed" where
  "probe_symbols w c table cols info trace =
     (case matching_columns (symbol_patterns c) cols of
        [] \<Rightarrow> (Inr info, trace)
      | sym_col # others \<Rightarrow>
          (case run_sql w trace (distinct_query sym_col table) of
             (result, trace') \<Rightarrow>
               if probe_ok result then
                 (let syms = extract_column_values result sym_col
                  in if syms \<noteq> []
                     then (Inr (info\<lparr>ti_symbols := Some syms, ti_symbol_column := Some sym_col\<rparr>), trace')
                     else (Inr info, trace'))
               else (Inr info, trace')))"

text \<open>\<^verbatim>\<open>table_info.update(date_info)\<close> writes the keys the reader returned.\<close>

definition update_date_info :: "date_info \<Rightarrow> table_info \<Rightarrow> table_info" where
  "update_date_info di info =
     info\<lparr>ti_date_range := (case di_date_range di of None \<Rightarrow> ti_date_range info | Some dr \<Rightarrow> Some dr),
          ti_row_count := (case di_row_count di of None \<Rightarrow> ti_row_count info | Some n \<Rightarrow> Some n)\<rparr>"

definition probe_dates ::
  "world \<Rightarrow> client \<Rightarrow> string \<Rightarrow> string list \<Rightarrow> table_info \<Rightarrow> event list \<Rightarrow> table_info probed" where
  "probe_dates w c table cols info trace =
     (case matching_columns (date_patterns c) cols of
        [] \<Rightarrow> (Inr info, trace)
      | date_col # others \<Rightarrow>
          (case run_sql w trace (range_query date_col table) of
             (result, trace') \<Rightarrow>
               if probe_ok result then
                 (case extract_date_range result of
                    Inl e \<Rightarrow> (Inl e, trace')
                  | Inr di \<Rightarrow>
                      if di_date_range di \<noteq> None \<or> di_row_count di \<noteq> None
                      then (Inr ((update_date_info di info)\<lparr>ti_date_column := Some date_col\<rparr>), trace')
                      else (Inr info, trace'))
               else (Inr info, trace')))"

definition probe_text ::
  "world \<Rightarrow> client \<Rightarrow> string \<Rightarrow> string list \<Rightarrow> table_info \<Rightarrow> event list \<Rightarrow> table_info probed" where
  "probe_text w c table cols info trace =
     (case matching_columns (text_patterns c) cols of
        [] \<Rightarrow> (Inr info, trace)
      | text_col # others \<Rightarrow>
          (let info1 = info\<lparr>ti_text_columns := Some (text_col # others)\<rparr>;
               order_clause =
                 (case matching_columns (date_patterns c) cols of
                    [] \<Rightarrow> []
                  | date_col # later \<Rightarrow> ''ORDER BY '' @ date_col @ '' DESC'')
           in case run_sql w trace (sample_query text_col table order_clause) of
                (result, trace') \<Rightarrow>
                  if probe_ok result then
                    (let samples = extract_column_values result text_col
                     in if samples \<noteq> []
                        then (Inr (info1\<lparr>ti_sample_text := Some (text_col, take 10 samples)\<rparr>), trace')
                        else (Inr info1, trace'))
                  else (Inr info1, trace')))"

text \<open>The body of the \<^verbatim>\<open>try\<close>, up to the test that stores the entry.\<close>

definition probe_table ::
  "world \<Rightarrow> client \<Rightarrow> string \<Rightarrow> string list \<Rightarrow> event list \<Rightarrow> table_info probed" where
  "probe_table w c table schema_columns trace =
     and_then (probe_columns w table schema_columns trace) (\<lambda>cols trace1.
       and_then (probe_row_count w table (new_table_info cols) trace1) (\<lambda>info1 trace2.
         and_then (probe_symbols w c table cols info1 trace2) (\<lambda>info2 trace3.
           and_then (probe_dates w c table cols info2 trace3) (\<lambda>info3 trace4.
             probe_text w c table cols info3 trace4))))"

text \<open>
  The loop over the tables: an entry is stored when its columns are known, and an
  exception (\<^verbatim>\<open>except Exception\<close>) leaves the cache as it is and goes on.
\<close>

definition store_table :: "string \<Rightarrow> (exn + table_info) \<Rightarrow> cache \<Rightarrow> cache" where
  "store_table table r entries =
     (case r of
        Inl e \<Rightarrow> entries
      | Inr info \<Rightarrow> if ti_columns info \<noteq> [] then dict_set table info entries else entries)"

fun probe_tables ::
  "world \<Rightarrow> client \<Rightarrow> (string \<times> string list) list \<Rightarrow> cache \<Rightarrow> event list \<Rightarrow> cache \<times> event list" where
  "probe_tables w c [] entries trace = (entries, trace)"
| "probe_tables w c (tc # rest) entries trace =
     (case probe_table w c (fst tc) (snd tc) trace of
        (r, trace') \<Rightarrow> probe_tables w c rest (store_table (fst tc) r entries) trace')"

section \<open>Schema discovery\<close>

definition is_resource_for_llm :: "resource \<Rightarrow> bool" where
  "is_resource_for_llm r =
     (case res_audience r of
        None \<Rightarrow> True
      | Some audience \<Rightarrow>
          if audience = [] then True
          else list_ex (\<lambda>a. a \<in> set [''llm'', ''assistant'', ''ai'']) audience)"

definition get_resource_priority :: "resource \<Rightarrow> rat" where
  "get_resource_priority r = (case res_priority r of None \<Rightarrow> 1 / 2 | Some p \<Rightarrow> p)"

text \<open>\<^verbatim>\<open>sorted(..., reverse=True)\<close> keeps the order of resources of equal priority.\<close>

definition sort_resources_by_priority :: "resource list \<Rightarrow> resource list" where
  "sort_resources_by_priority rs = sort_key (\<lambda>r. - get_resource_priority r) rs"

definition any_keyword :: "string list \<Rightarrow> string \<Rightarrow> bool" where
  "any_keyword keywords s = list_ex (\<lambda>k. py_in k s) keywords"

text \<open>The contents read so far, by category, as the loop over the resources keeps them.\<close>

record gathered =
  g_all :: "(string \<times> string) list"
  g_schema :: "(rat \<times> string) list"
  g_guidance :: "(rat \<times> string) list"
  g_other :: "(rat \<times> string \<times> string) list"

definition categorize :: "resource \<Rightarrow> string \<Rightarrow> gathered \<Rightarrow> gathered" where
  "categorize r text g =
     (let resource_name = res_name r;
          priority = get_resource_priority r;
          combined_text = py_lower (res_name r) @ '' '' @ py_lower (res_description r);
          g1 = g\<lparr>g_all := dict_set resource_name text (g_all g)\<rparr>
      in if any_keyword [''schema'', ''tables'', ''describe'', ''meta'', ''column'', ''structure'']
              combined_text
         then g1\<lparr>g_schema := g_schema g1 @ [(priority, ''## '' @ resource_name @ [NL] @ text)]\<rparr>
         else if any_keyword [''sql'', ''guidance'', ''query'', ''syntax'', ''example'', ''how to'']
                   combined_text
         then g1\<lparr>g_guidance := g_guidance g1 @ [(priority, ''## '' @ resource_name @ [NL] @ text)]\<rparr>
         else g1\<lparr>g_other := g_other g1 @ [(priority, resource_name, text)]\<rparr>)"

fun read_resources :: "world \<Rightarrow> resource list \<Rightarrow> gathered \<Rightarrow> event list \<Rightarrow> gathered \<times> event list" where
  "read_resources w [] g trace = (g, trace)"
| "read_resources w (r # rs) g trace =
     (let text = w_read_resource w trace (res_uri r)
      in read_resources w rs (if text = [] then g else categorize r text g)
           (trace @ [ReadResource (res_uri r)]))"

definition build_schema_description_from_contents :: "(string \<times> string) list \<Rightarrow> string" where
  "build_schema_description_from_contents contents =
     (if contents = [] then ''No schema information available.''
      else py_join [NL]
             (''## Available Resources from MCP Server''
              # concat (map (\<lambda>(name, text).
                               [[NL] @ ''### '' @ name,
                                if length text > 5000
                                then take 5000 text @ [NL] @ ''... (truncated)'' else text])
                            contents)))"

definition build_schema_description :: "resource list \<Rightarrow> string" where
  "build_schema_description rs =
     (if rs = [] then ''No schema information available.''
      else py_join [NL]
             (''Available resources/tables:''
              # map (\<lambda>r. ''- '' @ res_name r
                          @ (if res_description r \<noteq> [] then '': '' @ res_description r else []))
                    rs))"

text \<open>\<^verbatim>\<open>_extract_schema_from_result\<close>: the texts of the text items and the plain strings.\<close>

fun schema_text_parts :: "content_item list \<Rightarrow> string list" where
  "schema_text_parts [] = []"
| "schema_text_parts (CStr s # items) = s # schema_text_parts items"
| "schema_text_parts (item # items) =
     (if is_text_item item then item_text item # schema_text_parts items
      else schema_text_parts items)"

definition extract_schema_from_result :: "content_item list \<Rightarrow> string" where
  "extract_schema_from_result items = py_join [NL] (schema_text_parts items)"

text \<open>
  \<^verbatim>\<open>_discover_schema_via_tools\<close>. The first loop calls every tool whose name or
  description holds a schema keyword, with no arguments, until one gives a usable text;
  the second tries four listing queries on every tool whose name holds sql or query.
\<close>

definition is_schema_tool :: "tool_info \<Rightarrow> bool" where
  "is_schema_tool t =
     list_ex (\<lambda>k. py_in k (py_lower (t_name t)) \<or> py_in k (py_lower (t_description t)))
       [''schema'', ''tables'', ''describe'', ''list'', ''meta'', ''columns'']"

fun via_schema_tools :: "world \<Rightarrow> tool_info list \<Rightarrow> event list \<Rightarrow> string option \<times> event list" where
  "via_schema_tools w [] trace = (None, trace)"
| "via_schema_tools w (t # ts) trace =
     (if is_schema_tool t then
        (case call_tool w trace (t_name t) [] of
           (result, trace') \<Rightarrow>
             (let schema_text = extract_schema_from_result (get_content result)
              in if \<not> has_error result \<and> schema_text \<noteq> []
                    \<and> \<not> py_in ''error'' (py_lower schema_text)
                 then (Some schema_text, trace')
                 else via_schema_tools w ts trace'))
      else via_schema_tools w ts trace)"

fun via_sql_queries :: "world \<Rightarrow> string \<Rightarrow> string list \<Rightarrow> event list \<Rightarrow> string option \<times> event list" where
  "via_sql_queries w sql_tool [] trace = (None, trace)"
| "via_sql_queries w sql_tool (q # qs) trace =
     (case call_tool w trace sql_tool [(''query'', JStr q)] of
        (result, trace') \<Rightarrow>
          (let schema_text = extract_schema_from_result (get_content result)
           in if \<not> has_error result \<and> schema_text \<noteq> []
                 \<and> \<not> py_in ''error'' (py_lower schema_text)
                 \<and> \<not> py_in (''can'' @ [SQ] @ ''t lookup'') (py_lower schema_text)
              then (Some (''Available tables:'' @ [NL] @ schema_text), trace')
              else via_sql_queries w sql_tool qs trace'))"

definition table_listing_queries :: "string list" where
  "table_listing_queries = [''tables[]'', ''meta `'', ''SHOW TABLES'', ''SELECT name FROM tables'']"

fun via_sql_tools :: "world \<Rightarrow> string list \<Rightarrow> event list \<Rightarrow> string option \<times> event list" where
  "via_sql_tools w [] trace = (None, trace)"
| "via_sql_tools w (sql_tool # more_tools) trace =
     (case via_sql_queries w sql_tool table_listing_queries trace of
        (Some s, trace') \<Rightarrow> (Some s, trace')
      | (None, trace') \<Rightarrow> via_sql_tools w more_tools trace')"

definition schema_placeholder :: string where
  "schema_placeholder =
     ''Schema information not available at initialization.'' @ [NL]
     @ ''IMPORTANT: Use the available tools to discover the database schema dynamically before querying data.''
     @ [NL] @ ''Do NOT assume any table or column names exist.''"

definition discover_schema_via_tools :: "world \<Rightarrow> client \<Rightarrow> event list \<Rightarrow> client \<times> event list" where
  "discover_schema_via_tools w c trace =
     (case via_schema_tools w (tools c) trace of
        (Some s, trace1) \<Rightarrow> (c\<lparr>schema_description := s\<rparr>, trace1)
      | (None, trace1) \<Rightarrow>
          (case via_sql_tools w
                  (filter (\<lambda>n. py_in ''sql'' (py_lower n) \<or> py_in ''query'' (py_lower n))
                     (map t_name (tools c)))
                  trace1 of
             (Some s, trace2) \<Rightarrow> (c\<lparr>schema_description := s\<rparr>, trace2)
           | (None, trace2) \<Rightarrow> (c\<lparr>schema_description := schema_placeholder\<rparr>, trace2)))"

text \<open>
  \<^verbatim>\<open>_discover_schema\<close>. A session that fails while listing the resources, and an empty
  listing, lead to the discovery through tools. Each of the three texts is assigned
  only when its category has a part.
\<close>

definition store_gathered :: "resource list \<Rightarrow> gathered \<Rightarrow> client \<Rightarrow> client" where
  "store_gathered rs g c =
     (let schema_parts = sort_key (\<lambda>p. - fst p) (g_schema g);
          guidance_parts = sort_key (\<lambda>p. - fst p) (g_guidance g);
          other_parts = sort_key (\<lambda>p. - fst p) (g_other g);
          c1 = c\<lparr>resources := rs\<rparr>;
          c2 = (if schema_parts \<noteq> []
                then c1\<lparr>schema_description := py_join [NL, NL] (map snd schema_parts)\<rparr> else c1);
          c3 = (if guidance_parts \<noteq> []
                then c2\<lparr>sql_guidance := py_join [NL, NL] (map snd guidance_parts)\<rparr> else c2);
          c4 = (if other_parts \<noteq> []
                then c3\<lparr>additional_context := dict_of_pairs (map snd other_parts)\<rparr> else c3);
          c5 = (if schema_description c4 = [] \<and> g_all g \<noteq> []
                then c4\<lparr>schema_description := build_schema_description_from_contents (g_all g)\<rparr>
                else c4)
      in if schema_description c5 = []
         then c5\<lparr>schema_description := build_schema_description rs\<rparr> else c5)"

definition no_gathered :: gathered where
  "no_gathered = \<lparr>g_all = [], g_schema = [], g_guidance = [], g_other = []\<rparr>"

definition discover_schema :: "world \<Rightarrow> client \<Rightarrow> event list \<Rightarrow> client \<times> event list" where
  "discover_schema w c trace =
     (case w_list_resources w trace of
        Inl msg \<Rightarrow> discover_schema_via_tools w c (trace @ [ListResources])
      | Inr rs \<Rightarrow>
          if rs \<noteq> [] then
            (case read_resources w
                    (sort_resources_by_priority (filter is_resource_for_llm rs))
                    no_gathered (trace @ [ListResources]) of
               (g, trace') \<Rightarrow> (store_gathered rs g c, trace'))
          else discover_schema_via_tools w c (trace @ [ListResources]))"

text \<open>\<^verbatim>\<open>refresh_schema\<close>: the four assignments, then the discovery.\<close>

definition refresh_schema :: "world \<Rightarrow> client \<Rightarrow> event list \<Rightarrow> client \<times> event list" where
  "refresh_schema w c trace =
     discover_schema w
       (c\<lparr>schema_description := [], additional_context := [], data_content := [],
          data_content_discovered := False\<rparr>)
       trace"

section \<open>Initialization\<close>

definition build_tools_description :: "tool_info list \<Rightarrow> string" where
  "build_tools_description ts =
     py_join [NL]
       (map (\<lambda>t. ''### '' @ t_name t @ [NL] @ ''Description: '' @ t_description t @ [NL]
                  @ t_parameters t) ts)"

text \<open>
  \<^verbatim>\<open>initialize\<close>: \<open>Some e\<close> is the exception it raises again, which only the listing of
  the tools can cause. The tools are kept in a dictionary by name.
\<close>

definition initialize :: "world \<Rightarrow> client \<Rightarrow> bool \<Rightarrow> event list \<Rightarrow> exn option \<times> client \<times> event list" where
  "initialize w c force_refresh trace =
     (if initialized c \<and> \<not> force_refresh then (None, c, trace)
      else
        (case w_list_tools w trace of
           Inl msg \<Rightarrow> (Some (SessionError msg), c, trace @ [ListTools])
         | Inr listed \<Rightarrow>
             (let by_name = map snd (dict_of_pairs (map (\<lambda>t. (t_name t, t)) listed));
                  c1 = c\<lparr>tools := by_name, tools_description := build_tools_description by_name\<rparr>
              in case discover_schema w c1 (trace @ [ListTools]) of
                   (c2, trace') \<Rightarrow> (None, c2\<lparr>initialized := True\<rparr>, trace'))))"

section \<open>Finding the tables by SQL\<close>

text \<open>
  The names one row of a listing contributes in \<^verbatim>\<open>_discover_tables_via_sql\<close>: of a
  dictionary, its true values under the four usual keys; a string is a name itself.
\<close>

definition row_tables :: "json \<Rightarrow> json list" where
  "row_tables row =
     (case row of
        JObj d \<Rightarrow>
          concat (map (\<lambda>col. case dict_get d col of
                               None \<Rightarrow> []
                             | Some v \<Rightarrow> if py_truthy v then [v] else [])
                      [''name'', ''table_name'', ''tablename'', ''TABLE_NAME''])
      | JStr s \<Rightarrow> [JStr s]
      | _ \<Rightarrow> [])"

text \<open>
  \<^verbatim>\<open>for row in data\<close> in full: a list yields its elements, a string its characters, a
  dictionary its keys; on anything else the \<^verbatim>\<open>TypeError\<close> is caught.
\<close>

definition iterate :: "json \<Rightarrow> json list" where
  "iterate data =
     (case data of
        JArr vs \<Rightarrow> vs
      | JStr s \<Rightarrow> map (\<lambda>ch. JStr [ch]) s
      | JObj d \<Rightarrow> map (\<lambda>p. JStr (fst p)) d
      | _ \<Rightarrow> [])"

definition listed_tables :: "tool_result \<Rightarrow> json list" where
  "listed_tables result =
     concat (map (\<lambda>item. case item_data item of
                            None \<Rightarrow> []
                          | Some data \<Rightarrow> concat (map row_tables (iterate data)))
                 (get_content result))"

fun tables_via_queries :: "world \<Rightarrow> string list \<Rightarrow> event list \<Rightarrow> json list \<times> event list" where
  "tables_via_queries w [] trace = ([], trace)"
| "tables_via_queries w (q # qs) trace =
     (case run_sql w trace q of
        (result, trace') \<Rightarrow>
          if probe_ok result \<and> listed_tables result \<noteq> []
          then (listed_tables result, trace')
          else tables_via_queries w qs trace')"

definition discover_tables_via_sql :: "world \<Rightarrow> event list \<Rightarrow> json list \<times> event list" where
  "discover_tables_via_sql w trace =
     tables_via_queries w
       [''SHOW TABLES'', ''SELECT name FROM tables'',
        ''SELECT table_name FROM information_schema.tables'']
       trace"

text \<open>
  The decimal digits of a number, and the text an f-string gives a table name. It is
  exact for strings, integers, booleans and the special floats; for another float it
  shows the digits of the literal. Lists and dictionaries cannot be dictionary keys.
\<close>

fun digits_of :: "nat \<Rightarrow> string" where
  "digits_of n =
     (if n < 10 then [char_of (48 + n)]
      else digits_of (n div 10) @ [char_of (48 + n mod 10)])"

declare digits_of.simps [simp del]

definition int_text :: "int \<Rightarrow> string" where
  "int_text i = (if i < 0 then ''-'' @ digits_of (nat (- i)) else digits_of (nat i))"

fun name_text :: "json \<Rightarrow> exn + string" where
  "name_text (JStr s) = Inr s"
| "name_text (JInt i) = Inr (int_text i)"
| "name_text (JBool b) = Inr (if b then ''True'' else ''False'')"
| "name_text JNull = Inr ''None''"
| "name_text JNaN = Inr ''nan''"
| "name_text (JInf p) = Inr (if p then ''inf'' else ''-inf'')"
| "name_text (JFloat m e) = Inr (int_text m @ ''e'' @ int_text e)"
| "name_text (JArr vs) = Inl TypeError"
| "name_text (JObj d) = Inl TypeError"

text \<open>\<^verbatim>\<open>{t: [] for t in table_list}\<close>, which raises on a name that cannot be hashed.\<close>

fun tables_without_columns :: "json list \<Rightarrow> exn + (string \<times> string list) list" where
  "tables_without_columns [] = Inr []"
| "tables_without_columns (v # vs) =
     (case name_text v of
        Inl e \<Rightarrow> Inl e
      | Inr name \<Rightarrow>
          (case tables_without_columns vs of
             Inl e \<Rightarrow> Inl e
           | Inr rest \<Rightarrow> Inr ((name, []) # filter (\<lambda>p. fst p \<noteq> name) rest)))"

section \<open>Data-content discovery\<close>

text \<open>
  \<^verbatim>\<open>{t: tables_with_columns.get(t, []) for t in tables if t in tables_with_columns}\<close>.
\<close>

definition requested_tables ::
  "string list \<Rightarrow> (string \<times> string list) list \<Rightarrow> (string \<times> string list) list" where
  "requested_tables wanted tables_with_columns =
     dict_of_pairs
       (concat (map (\<lambda>t. case dict_get tables_with_columns t of
                            None \<Rightarrow> []
                          | Some cols \<Rightarrow> [(t, cols)])
                    wanted))"

definition ensure_initialized :: "world \<Rightarrow> client \<Rightarrow> event list \<Rightarrow> exn option \<times> client \<times> event list" where
  "ensure_initialized w c trace =
     (if \<not> initialized c then initialize w c False trace else (None, c, trace))"

text \<open>
  The tables to probe, with the columns the schema text gives; the SQL listing is the
  fallback, and then no column is known.
\<close>

definition tables_to_probe ::
  "world \<Rightarrow> client \<Rightarrow> string list option \<Rightarrow> event list
     \<Rightarrow> (exn + (string \<times> string list) list) \<times> event list" where
  "tables_to_probe w c wanted trace =
     (let parsed = w_schema_tables w (schema_description c);
          chosen = (case wanted of
                      None \<Rightarrow> parsed
                    | Some ts \<Rightarrow> requested_tables ts parsed)
      in if chosen = [] then
           (case discover_tables_via_sql w trace of
              (names, trace') \<Rightarrow> (tables_without_columns names, trace'))
         else (Inr chosen, trace))"

definition discover_tables_content ::
  "world \<Rightarrow> client \<Rightarrow> string list option \<Rightarrow> event list
     \<Rightarrow> (exn + cache) \<times> client \<times> event list" where
  "discover_tables_content w c wanted trace =
     (case tables_to_probe w c wanted trace of
        (Inl e, trace2) \<Rightarrow> (Inl e, c, trace2)
      | (Inr tables_with_columns, trace2) \<Rightarrow>
          if tables_with_columns = [] then (Inr (data_content c), c, trace2)
          else
            (case probe_tables w c tables_with_columns (data_content c) trace2 of
               (entries, trace3) \<Rightarrow>
                 (Inr entries,
                  c\<lparr>data_content := entries, data_content_discovered := True\<rparr>,
                  trace3)))"

text \<open>
  \<^verbatim>\<open>discover_data_content\<close>. The result is the cache returned, or the exception that
  leaves the method (from \<^verbatim>\<open>initialize\<close>, or from a table name that cannot be hashed).
\<close>

definition discover_data_content ::
  "world \<Rightarrow> client \<Rightarrow> string list option \<Rightarrow> bool \<Rightarrow> event list
     \<Rightarrow> (exn + cache) \<times> client \<times> event list" where
  "discover_data_content w c wanted force_refresh trace =
     (if data_content_discovered c \<and> \<not> force_refresh then (Inr (data_content c), c, trace)
      else
        (case ensure_initialized w c trace of
           (Some e, c1, trace1) \<Rightarrow> (Inl e, c1, trace1)
         | (None, c1, trace1) \<Rightarrow> discover_tables_content w c1 wanted trace1))"

section \<open>The planning loop\<close>

text \<open>\<^verbatim>\<open>_format_additional_context\<close>.\<close>

definition format_additional_context :: "client \<Rightarrow> string" where
  "format_additional_context c =
     (if additional_context c = [] then ''No additional context available.''
      else py_join [NL, NL]
             (map (\<lambda>(name, text).
                     ''### '' @ name @ [NL]
                     @ (if length text > 2000
                        then take 2000 text @ [NL] @ ''... (truncated)'' else text))
                  (additional_context c)))"

text \<open>
  \<^verbatim>\<open>_plan_tool_usage\<close>: the schema discovered so far is appended to the schema text of
  the client under its own heading, and the model is asked once.
\<close>

definition planning_prompt :: "client \<Rightarrow> string \<Rightarrow> string \<Rightarrow> plan_prompt" where
  "planning_prompt c user_query additional_schema =
     \<lparr>pp_tools_description = tools_description c,
      pp_schema_description =
        schema_description c
        @ (if additional_schema \<noteq> []
           then [NL, NL] @ ''## Dynamically Discovered Schema:'' @ [NL] @ additional_schema
           else []),
      pp_data_content = data_content c,
      pp_sql_guidance =
        (if sql_guidance c \<noteq> [] then sql_guidance c
         else ''No specific SQL syntax guidance available. Use standard SQL syntax.''),
      pp_additional_context = format_additional_context c,
      pp_user_query = user_query\<rparr>"

definition plan_tool_usage ::
  "world \<Rightarrow> client \<Rightarrow> string \<Rightarrow> string \<Rightarrow> event list \<Rightarrow> plan \<times> event list" where
  "plan_tool_usage w c user_query additional_schema trace =
     (w_plan w trace (planning_prompt c user_query additional_schema),
      trace @ [PlanCall (planning_prompt c user_query additional_schema)])"

definition is_schema_step :: "string \<Rightarrow> bool" where
  "is_schema_step purpose =
     any_keyword [''schema'', ''discover'', ''list tables'', ''describe'', ''metadata'']
       (py_lower purpose)"

text \<open>The variables of the loop that the execution of a plan changes.\<close>

record exec_state =
  all_tool_results :: "tool_result list"
  discovered_schema :: string
  schema_discovery_done :: bool
  x_trace :: "event list"

definition schema_note :: "string \<Rightarrow> tool_result \<Rightarrow> string" where
  "schema_note tool_name result =
     (let schema_text = extract_schema_from_result (get_content result)
      in if \<not> has_error result \<and> schema_text \<noteq> []
         then [NL, NL] @ ''Discovered from '' @ tool_name @ '':'' @ [NL] @ schema_text
         else [])"

definition execute_step :: "world \<Rightarrow> step \<Rightarrow> exec_state \<Rightarrow> exec_state" where
  "execute_step w s st =
     (case call_tool w (x_trace st) (s_tool s) (s_arguments s) of
        (result0, trace') \<Rightarrow>
          (let result = result0\<lparr>r_purpose := Some (s_purpose s)\<rparr>
           in \<lparr>all_tool_results = all_tool_results st @ [result],
               discovered_schema =
                 discovered_schema st
                 @ (if is_schema_step (s_purpose s) then schema_note (s_tool s) result else []),
               schema_discovery_done = (schema_discovery_done st \<or> is_schema_step (s_purpose s)),
               x_trace = trace'\<rparr>))"

fun execute_steps :: "world \<Rightarrow> step list \<Rightarrow> exec_state \<Rightarrow> exec_state" where
  "execute_steps w [] st = st"
| "execute_steps w (s # ss) st = execute_steps w ss (execute_step w s st)"

text \<open>What follows the loop: the fixed answer without results, the synthesis otherwise.\<close>

definition finish ::
  "world \<Rightarrow> string \<Rightarrow> tool_result list \<Rightarrow> event list \<Rightarrow> (string \<times> tool_result list) \<times> event list" where
  "finish w user_query results trace =
     (if results = [] then ((''Unable to answer with available tools.'', []), trace)
      else ((w_synthesize w trace user_query results, results),
            trace @ [SynthesisCall user_query results]))"

definition unavailable_answer :: "plan \<Rightarrow> string" where
  "unavailable_answer p =
     (let limitations = (case p_limitations p of None \<Rightarrow> [] | Some l \<Rightarrow> l);
          reasoning = (case p_reasoning p of None \<Rightarrow> [] | Some r \<Rightarrow> r)
      in if limitations \<noteq> [] then reasoning @ [NL, NL] @ limitations else reasoning)"

text \<open>
  \<^verbatim>\<open>for iteration in range(max_iterations)\<close> with its \<^verbatim>\<open>return\<close>, \<^verbatim>\<open>break\<close> and
  \<^verbatim>\<open>continue\<close>; \<open>iteration\<close> is the loop variable.
\<close>

function iq_loop ::
  "world \<Rightarrow> client \<Rightarrow> string \<Rightarrow> int \<Rightarrow> nat \<Rightarrow> tool_result list \<Rightarrow> string \<Rightarrow> event list
     \<Rightarrow> (string \<times> tool_result list) \<times> event list" where
  "iq_loop w c user_query max_iterations iteration results discovered trace =
     (if int iteration < max_iterations then
        (case plan_tool_usage w c user_query discovered trace of
           (p, trace1) \<Rightarrow>
             if p_data_available p = Some False then ((unavailable_answer p, []), trace1)
             else if p_steps p = [] then
               (if iteration = 0
                then (((case p_reasoning p of
                          None \<Rightarrow> ''Unable to answer with available tools.''
                        | Some r \<Rightarrow> r), []), trace1)
                else finish w user_query results trace1)
             else
               (let st = execute_steps w (p_steps p)
                           \<lparr>all_tool_results = results, discovered_schema = discovered,
                            schema_discovery_done = False, x_trace = trace1\<rparr>
                in if schema_discovery_done st \<and> int iteration < max_iterations - 1
                   then iq_loop w c user_query max_iterations (Suc iteration)
                          (all_tool_results st) (discovered_schema st) (x_trace st)
                   else finish w user_query (all_tool_results st) (x_trace st)))
      else finish w user_query results trace)"
  by pat_completeness auto
termination
  by (relation "measure (\<lambda>(w, c, q, m, i, r, d, t). nat (m - int i))") auto

declare iq_loop.simps [simp del]

text \<open>
  \<^verbatim>\<open>intelligent_query\<close>: initialization and data-content discovery when they have not
  been done, then the loop. \<open>Inl\<close> is an exception of one of the two.
\<close>

definition ensure_data_content ::
  "world \<Rightarrow> client \<Rightarrow> event list \<Rightarrow> (exn + cache) \<times> client \<times> event list" where
  "ensure_data_content w c trace =
     (if \<not> data_content_discovered c then discover_data_content w c None False trace
      else (Inr (data_content c), c, trace))"

definition intelligent_query ::
  "world \<Rightarrow> client \<Rightarrow> string \<Rightarrow> int \<Rightarrow> event list
     \<Rightarrow> (exn + string \<times> tool_result list) \<times> client \<times> event list" where
  "intelligent_query w c user_query max_iterations trace =
     (case ensure_initialized w c trace of
        (Some e, c1, trace1) \<Rightarrow> (Inl e, c1, trace1)
      | (None, c1, trace1) \<Rightarrow>
          (case ensure_data_content w c1 trace1 of
             (Inl e, c2, trace2) \<Rightarrow> (Inl e, c2, trace2)
           | (Inr entries, c2, trace2) \<Rightarrow>
               (case iq_loop w c2 user_query max_iterations 0 [] [] trace2 of
                  (out, trace3) \<Rightarrow> (Inr out, c2, trace3))))"

section \<open>Reading a trace\<close>

text \<open>The planning calls of a trace, its tool calls, and the schema texts it showed the model.\<close>

fun is_plan_call :: "event \<Rightarrow> bool" where
  "is_plan_call (PlanCall prompt) = True"
| "is_plan_call ev = False"

definition count_plans :: "event list \<Rightarrow> nat" where
  "count_plans trace = length (filter is_plan_call trace)"









section \<open>The states a client can reach\<close>

text \<open>
  A client starts as \<^verbatim>\<open>__init__\<close> leaves it and changes by calls of its methods, each
  with any arguments and at any point of the trace.
\<close>

inductive reachable :: "world \<Rightarrow> client \<Rightarrow> bool" for w :: world where
  created: "reachable w (new_client sp dp tp)"
| initialized: "reachable w c \<Longrightarrow> reachable w (fst (snd (initialize w c force trace)))"
| refreshed: "reachable w c \<Longrightarrow> reachable w (fst (refresh_schema w c trace))"
| discovered:
    "reachable w c \<Longrightarrow> reachable w (fst (snd (discover_data_content w c wanted force trace)))"
| queried:
    "reachable w c \<Longrightarrow> reachable w (fst (snd (intelligent_query w c q max_iterations trace)))"

section \<open>Worlds and clients of the examples\<close>

text \<open>A server that cannot be reached, a model that plans nothing, and a new client.\<close>

definition no_plan :: plan where
  "no_plan = \<lparr>p_reasoning = None, p_data_available = None, p_limitations = None, p_steps = []\<rparr>"

definition down_world :: world where
  "down_world =
     \<lparr>w_list_tools = (\<lambda>trace. Inl ''down''),
      w_list_resources = (\<lambda>trace. Inl ''down''),
      w_read_resource = (\<lambda>trace uri. []),
      w_call_tool = (\<lambda>trace tool_name args. Raised ''down''),
      w_plan = (\<lambda>trace prompt. no_plan),
      w_synthesize = (\<lambda>trace user_query results. []),
      w_schema_tables = (\<lambda>schema. [])\<rparr>"

definition default_client :: client where
  "default_client = new_client [] [] []"

text \<open>
  A server with three tables, and the schema text that describes them in the format of
  its \<^verbatim>\<open>kdbx_describe_tables\<close> resource; the text names no column of \<^verbatim>\<open>ghost\<close>. Every
  count query fails; the distinct-values queries on \<^verbatim>\<open>daily.sym\<close> and
  \<^verbatim>\<open>quotes.ticker\<close> are answered, and so is the date-range query on \<^verbatim>\<open>daily\<close>, whose
  row also carries a row count. The query for the columns of \<^verbatim>\<open>ghost\<close> fails too.
\<close>

definition three_tables_schema :: string where
  "three_tables_schema =
     ''TABLE ANALYSIS: daily'' @ [NL] @ ''  sym | type=s'' @ [NL] @ ''  date | type=d'' @ [NL]
     @ ''TABLE ANALYSIS: quotes'' @ [NL] @ ''  ticker | type=s'' @ [NL]
     @ ''TABLE ANALYSIS: ghost'' @ [NL]"

definition three_tables :: "(string \<times> string list) list" where
  "three_tables = [(''daily'', [''sym'', ''date'']), (''quotes'', [''ticker'']), (''ghost'', [])]"

definition text_reply :: "string \<Rightarrow> session_outcome" where
  "text_reply t = Returned (RObj (Some False) (Some [RText t]) (Some JNull) [])"

definition probe_world :: world where
  \<open>probe_world =
     down_world\<lparr>
       w_call_tool := (\<lambda>trace tool_name args.
          if args = [(''query'', JStr (distinct_query ''sym'' ''daily''))]
          then text_reply ''{"data": [{"sym": "AAPL"}, {"sym": "MSFT"}, {"sym": "AAPL"}]}''
          else if args = [(''query'', JStr (distinct_query ''ticker'' ''quotes''))]
          then text_reply ''{"data": [{"ticker": "IBM"}]}''
          else if args = [(''query'', JStr (range_query ''date'' ''daily''))]
          then text_reply
                 ''{"data": [{"min_date": "2023-01-01", "max_date": "2024-01-15", "row_count": 250}]}''
          else Raised ''boom''),
       w_schema_tables := (\<lambda>schema. if schema = three_tables_schema then three_tables else [])\<rparr>\<close>

definition ready_client :: client where
  "ready_client = default_client\<lparr>initialized := True, schema_description := three_tables_schema\<rparr>"















definition probed_client :: client where
  "probed_client = ready_client\<lparr>schema_description := ''SCHEMA'', data_content_discovered := True\<rparr>"


text \<open>
  Two discovery cycles. In the first the server lists a schema resource and a guidance
  resource; in the second it lists the schema resource only.
\<close>

definition tables_resource :: resource where
  "tables_resource =
     \<lparr>res_uri = ''kdbx://tables'', res_name = ''kdbx_describe_tables'',
      res_description = ''Describe the tables'', res_mimeType = ''text/plain'',
      res_audience = None, res_priority = None\<rparr>"

definition guidance_resource :: resource where
  "guidance_resource =
     \<lparr>res_uri = ''kdbx://guidance'', res_name = ''kdbx_sql_query_guidance'',
      res_description = ''SQL syntax help'', res_mimeType = ''text/plain'',
      res_audience = None, res_priority = None\<rparr>"

definition guided_world :: world where
  "guided_world =
     down_world\<lparr>
       w_list_resources := (\<lambda>trace. Inr [tables_resource, guidance_resource]),
       w_read_resource := (\<lambda>trace uri.
          if uri = ''kdbx://guidance'' then ''Quote every column'' else ''TABLE ANALYSIS: daily'')\<rparr>"

definition schema_only_world :: world where
  "schema_only_world =
     down_world\<lparr>
       w_list_resources := (\<lambda>trace. Inr [tables_resource]),
       w_read_resource := (\<lambda>trace uri. ''TABLE ANALYSIS: trades'')\<rparr>"

definition first_cycle :: "client \<times> event list" where
  "first_cycle = refresh_schema guided_world probed_client []"

definition second_cycle :: "client \<times> event list" where
  "second_cycle = refresh_schema schema_only_world (fst first_cycle) (snd first_cycle)"

section \<open>Properties\<close>

subsection \<open>Cleaning the generated SQL\<close>

text \<open>
  C8. The model's response is the fenced block
  \<^verbatim>\<open>```sql\<close>, new line, \<^verbatim>\<open>SELECT \"sym\" FROM daily\<close>, new line, \<^verbatim>\<open>```\<close>, wrapped in double
  quotes or not. The cleaned query is exactly \<^verbatim>\<open>SELECT "sym" FROM daily\<close>, with no fence,
  backslash, wrapping quote or outer white space, and it is the query passed to
  \<^verbatim>\<open>kdbx_run_sql_query\<close>.
\<close>

theorem simple_chat_cleans_fenced_sql:
  "clean_sql ([DQ] @ fenced_sql_response @ [DQ]) = Some cleaned_sql_expected
   \<and> simple_chat_call ([DQ] @ fenced_sql_response @ [DQ])
       = Some (''kdbx_run_sql_query'', [(''query'', cleaned_sql_expected)])
   \<and> clean_sql fenced_sql_response = Some cleaned_sql_expected
   \<and> simple_chat_call fenced_sql_response
       = Some (''kdbx_run_sql_query'', [(''query'', cleaned_sql_expected)])
   \<and> cleaned_sql_expected = ''SELECT '' @ [CHR 0x22] @ ''sym'' @ [CHR 0x22] @ '' FROM daily''"
  by code_simp

subsection \<open>The plan extractor\<close>

lemma ci_prefix_think_shape:
  assumes "ci_prefix ''<think>'' s"
  shows "\<exists>a b c d e f g r. s = a # b # c # d # e # f # g # r
           \<and> py_lower_char a = CHR ''<'' \<and> py_lower_char b = CHR ''t''
           \<and> py_lower_char c = CHR ''h'' \<and> py_lower_char d = CHR ''i''
           \<and> py_lower_char e = CHR ''n'' \<and> py_lower_char f = CHR ''k''
           \<and> py_lower_char g = CHR ''>''"
  using assms
  by (auto elim!: ci_prefix.elims)

lemma open_think_strips_all:
  assumes "ci_prefix ''<think>'' s" and "find_ci ''</think>'' (drop 7 s) = None"
  shows "strip_open_think (strip_closed_think s) = []"
proof -
  from ci_prefix_think_shape [OF assms(1)] obtain a b c d e f g r where
    s: "s = a # b # c # d # e # f # g # r"
    and l: "py_lower_char a = CHR ''<''" "py_lower_char b = CHR ''t''"
           "py_lower_char c = CHR ''h''" "py_lower_char d = CHR ''i''"
           "py_lower_char e = CHR ''n''" "py_lower_char f = CHR ''k''"
           "py_lower_char g = CHR ''>''"
    by blast
  from assms(2) s have nf: "find_ci ''</think>'' r = None" by simp
  have "strip_closed_think s = a # b # c # d # e # f # g # sub_think_from 0 r"
    using l nf by (simp add: s strip_closed_think_def)
  then show ?thesis using l by simp
qed

text \<open>
  C1, as the code has it. For the fenced block, the object inside other text and the
  nested object with trailing text, \<^verbatim>\<open>_extract_json\<close> returns a text that parses to the
  expected object. A text that opens with a reasoning tag that is never closed is cut
  to nothing, so the extractor returns \<^verbatim>\<open>None\<close> whatever follows the tag.
\<close>

theorem extract_json_cases:
  "extract_json input_fenced = Some json_a1
   \<and> extract_json input_embedded = Some json_a1
   \<and> json_loads json_a1 = Some (JObj [(''a'', JInt 1)])
   \<and> extract_json input_trailing = Some json_nested
   \<and> json_loads json_nested = Some (JObj [(''a'', JObj [(''b'', JInt 1)])])
   \<and> (ci_prefix ''<think>'' s \<and> find_ci ''</think>'' (drop 7 s) = None
        \<longrightarrow> extract_json s = None)"
proof -
  have concrete:
    "extract_json input_fenced = Some json_a1
     \<and> extract_json input_embedded = Some json_a1
     \<and> json_loads json_a1 = Some (JObj [(''a'', JInt 1)])
     \<and> extract_json input_trailing = Some json_nested
     \<and> json_loads json_nested = Some (JObj [(''a'', JObj [(''b'', JInt 1)])])"
    by code_simp
  have "extract_json s = None"
    if "ci_prefix ''<think>'' s" and "find_ci ''</think>'' (drop 7 s) = None"
    using open_think_strips_all [OF that] by (simp add: extract_json_def py_strip_def)
  with concrete show ?thesis by blast
qed

theorem extract_json_cases_witness:
  "ci_prefix ''<think>'' input_open_think
   \<and> find_ci ''</think>'' (drop 7 input_open_think) = None
   \<and> extract_json input_open_think = None
   \<and> extract_json input_fenced = Some json_a1"
proof -
  have h: "ci_prefix ''<think>'' input_open_think
           \<and> find_ci ''</think>'' (drop 7 input_open_think) = None"
    by code_simp
  with extract_json_cases [of input_open_think] show ?thesis by blast
qed

text \<open>
  The claim as stated fails for the fourth input: the JSON object after the open tag is
  valid, and the extractor returns \<^verbatim>\<open>None\<close>.
\<close>

theorem extract_json_open_think_counterexample:
  "input_open_think = ''<think>reasoning '' @ json_a1
   \<and> json_loads json_a1 = Some (JObj [(''a'', JInt 1)])
   \<and> extract_json input_open_think = None"
  by code_simp

subsection \<open>The tool call\<close>

lemma py_join_nonempty: "list_ex (\<lambda>t. t \<noteq> []) xs \<Longrightarrow> py_join sep xs \<noteq> []"
  by (induction sep xs rule: py_join.induct) auto

text \<open>
  C6, as the code has it. A session that raises becomes a result with the error flag,
  the message of the exception as its error and a non-empty text item; no exception
  leaves \<^verbatim>\<open>call_tool\<close>. When the server's result object has the error flag and a text
  item that is not empty, the error of the result is the text items joined by spaces,
  and it is not empty.
\<close>

theorem call_tool_failures_are_results:
  "r_isError (call_tool_response tool_name args (Raised msg))
   \<and> r_error (call_tool_response tool_name args (Raised msg)) = Some msg
   \<and> r_content (call_tool_response tool_name args (Raised msg))
       = Some [CText (''Tool execution error: '' @ msg)]
   \<and> (list_ex (\<lambda>t. t \<noteq> []) (error_texts (map convert_item items)) \<longrightarrow>
        r_isError (call_tool_response tool_name args
                     (Returned (RObj (Some True) (Some items) structured repr)))
      \<and> r_error (call_tool_response tool_name args
                     (Returned (RObj (Some True) (Some items) structured repr)))
          = Some (py_join '' '' (error_texts (map convert_item items)))
      \<and> py_join '' '' (error_texts (map convert_item items)) \<noteq> [])"
proof -
  have "list_ex (\<lambda>t. t \<noteq> []) (error_texts (map convert_item items))
        \<Longrightarrow> map convert_item items \<noteq> [] \<and> error_texts (map convert_item items) \<noteq> []"
    by (auto simp: error_texts_def)
  then show ?thesis
    by (auto simp: call_tool_response_def Let_def py_join_nonempty)
qed

theorem call_tool_failures_are_results_witness:
  "list_ex (\<lambda>t. t \<noteq> []) (error_texts (map convert_item [RText ''no such table'']))
   \<and> r_error (call_tool_response ''kdbx_run_sql_query'' [] (Raised ''timed out''))
       = Some ''timed out''
   \<and> r_error (call_tool_response ''kdbx_run_sql_query'' []
                 (Returned (RObj (Some True) (Some [RText ''no such table'']) (Some JNull) [])))
       = Some ''no such table''"
proof -
  have h: "list_ex (\<lambda>t. t \<noteq> []) (error_texts (map convert_item [RText ''no such table'']))"
    by (simp add: error_texts_def)
  have j: "py_join '' '' (error_texts (map convert_item [RText ''no such table'']))
           = ''no such table''"
    by (simp add: error_texts_def)
  from call_tool_failures_are_results
         [of "''kdbx_run_sql_query''" "[]" "''timed out''" "[RText ''no such table'']"
             "Some JNull" "[]"] h j
  show ?thesis by simp
qed

text \<open>
  The claim as stated fails for an exception whose message is empty (a timeout or a
  closed stream): the result has the error flag and a text item, and its error is the
  empty text.
\<close>

theorem call_tool_empty_message_counterexample:
  "r_isError (call_tool_response ''kdbx_run_sql_query'' [] (Raised []))
   \<and> r_content (call_tool_response ''kdbx_run_sql_query'' [] (Raised []))
       = Some [CText ''Tool execution error: '']
   \<and> r_error (call_tool_response ''kdbx_run_sql_query'' [] (Raised [])) = Some []"
  by (simp add: call_tool_response_def)

subsection \<open>Probing a table\<close>

lemma run_sql_eq:
  "run_sql w trace q = (r, t) \<Longrightarrow> t = trace @ [ToolCall ''kdbx_run_sql_query'' [(''query'', JStr q)]]"
  by (auto simp: run_sql_def call_tool_def)

lemma probe_symbols_trace:
  "snd (probe_symbols w c table cols info trace) =
     (case matching_columns (symbol_patterns c) cols of
        [] \<Rightarrow> trace
      | sym_col # others \<Rightarrow>
          trace @ [ToolCall ''kdbx_run_sql_query'' [(''query'', JStr (distinct_query sym_col table))]])"
  by (auto simp: probe_symbols_def Let_def split: list.splits prod.splits dest: run_sql_eq)

text \<open>
  C2, as the code has it. The distinct-values query is issued on the first column, in
  the order of the columns, whose lower-cased name is a member of the list of symbol
  patterns (equality with a pattern, not containment of a pattern), and on that column
  only; when no column is a member, no such query is issued.
\<close>

theorem symbol_probe_first_member:
  "(cols = pre @ col # post \<and> py_lower col \<in> set (symbol_patterns c)
      \<and> (\<forall>x \<in> set pre. py_lower x \<notin> set (symbol_patterns c))
    \<longrightarrow> snd (probe_symbols w c table cols info trace)
          = trace @ [ToolCall ''kdbx_run_sql_query'' [(''query'', JStr (distinct_query col table))]])
   \<and> ((\<forall>x \<in> set cols'. py_lower x \<notin> set (symbol_patterns c))
    \<longrightarrow> snd (probe_symbols w c table cols' info trace) = trace)"
proof (intro conjI impI)
  assume a: "cols = pre @ col # post \<and> py_lower col \<in> set (symbol_patterns c)
      \<and> (\<forall>x \<in> set pre. py_lower x \<notin> set (symbol_patterns c))"
  then have "matching_columns (symbol_patterns c) cols
             = col # matching_columns (symbol_patterns c) post"
    by (simp add: matching_columns_def)
  then show "snd (probe_symbols w c table cols info trace)
          = trace @ [ToolCall ''kdbx_run_sql_query'' [(''query'', JStr (distinct_query col table))]]"
    by (simp add: probe_symbols_trace)
next
  assume "\<forall>x \<in> set cols'. py_lower x \<notin> set (symbol_patterns c)"
  then have "matching_columns (symbol_patterns c) cols' = []"
    by (simp add: matching_columns_def)
  then show "snd (probe_symbols w c table cols' info trace) = trace"
    by (simp add: probe_symbols_trace)
qed

theorem symbol_probe_first_member_witness:
  "[''id'', ''Sym'', ''ticker''] = [''id''] @ ''Sym'' # [''ticker'']
   \<and> py_lower ''Sym'' \<in> set (symbol_patterns default_client)
   \<and> list_all (\<lambda>x. py_lower x \<notin> set (symbol_patterns default_client)) [''id'']
   \<and> list_all (\<lambda>x. py_lower x \<notin> set (symbol_patterns default_client)) [''id'', ''symbol_id'']
   \<and> snd (probe_symbols down_world default_client ''daily'' [''id'', ''Sym'', ''ticker'']
             (new_table_info [''id'', ''Sym'', ''ticker'']) [])
       = [] @ [ToolCall ''kdbx_run_sql_query'' [(''query'', JStr (distinct_query ''Sym'' ''daily''))]]
   \<and> snd (probe_symbols down_world default_client ''daily'' [''id'', ''symbol_id'']
             (new_table_info [''id'', ''Sym'', ''ticker'']) []) = []"
proof -
  have a1: "[''id'', ''Sym'', ''ticker''] = [''id''] @ ''Sym'' # [''ticker'']" by simp
  have a2: "py_lower ''Sym'' \<in> set (symbol_patterns default_client)" by code_simp
  have a3: "list_all (\<lambda>x. py_lower x \<notin> set (symbol_patterns default_client)) [''id'']"
    by code_simp
  have a4: "list_all (\<lambda>x. py_lower x \<notin> set (symbol_patterns default_client)) [''id'', ''symbol_id'']"
    by code_simp
  have h1: "[''id'', ''Sym'', ''ticker''] = [''id''] @ ''Sym'' # [''ticker'']
    \<and> py_lower ''Sym'' \<in> set (symbol_patterns default_client)
    \<and> (\<forall>x \<in> set [''id'']. py_lower x \<notin> set (symbol_patterns default_client))"
    using a1 a2 a3 unfolding list_all_iff by blast
  have h2: "\<forall>x \<in> set [''id'', ''symbol_id'']. py_lower x \<notin> set (symbol_patterns default_client)"
    using a4 unfolding list_all_iff by blast
  note t = symbol_probe_first_member
         [of "[''id'', ''Sym'', ''ticker'']" "[''id'']" "''Sym''" "[''ticker'']" default_client
             down_world "''daily''" "new_table_info [''id'', ''Sym'', ''ticker'']" "[]"
             "[''id'', ''symbol_id'']"]
  note c1 = t [THEN conjunct1, THEN mp, OF h1]
  note c2 = t [THEN conjunct2, THEN mp, OF h2]
  show ?thesis
    by (rule conjI [OF a1 conjI [OF a2 conjI [OF a3 conjI [OF a4 conjI [OF c1 c2]]]]])
qed

text \<open>
  The claim as stated fails on a column \<^verbatim>\<open>symbol_id\<close>: its name contains the pattern
  \<^verbatim>\<open>sym\<close>, and no distinct-values query is issued.
\<close>

theorem symbol_probe_substring_counterexample:
  "py_in ''sym'' (py_lower ''symbol_id'')
   \<and> ''sym'' \<in> set (symbol_patterns default_client)
   \<and> snd (probe_symbols down_world default_client ''daily'' [''id'', ''symbol_id'']
            (new_table_info [''id'', ''symbol_id'']) []) = []"
  by code_simp


subsection \<open>The data-content cache\<close>

lemma run_sql_snd: "snd (run_sql w trace q) = trace @ [sql_event q]"
  by (simp add: run_sql_def call_tool_def sql_event_def)

lemma dict_set_mem: "e \<in> set (dict_set k v d) \<Longrightarrow> e = (k, v) \<or> e \<in> set d"
  by (induction d) (auto split: if_splits)

lemma store_table_columns:
  assumes "\<forall>e \<in> set entries. ti_columns (snd e) \<noteq> []"
  shows "\<forall>e \<in> set (store_table table r entries). ti_columns (snd e) \<noteq> []"
proof
  fix e assume e: "e \<in> set (store_table table r entries)"
  show "ti_columns (snd e) \<noteq> []"
  proof (cases r)
    case (Inl x)
    with e assms show ?thesis by (simp add: store_table_def)
  next
    case (Inr info)
    show ?thesis
    proof (cases "ti_columns info = []")
      case True
      with e Inr assms show ?thesis by (simp add: store_table_def)
    next
      case False
      with e Inr have "e \<in> set (dict_set table info entries)" by (simp add: store_table_def)
      then have "e = (table, info) \<or> e \<in> set entries" by (rule dict_set_mem)
      with False assms show ?thesis by auto
    qed
  qed
qed

lemma probe_tables_columns:
  "\<forall>e \<in> set entries. ti_columns (snd e) \<noteq> [] \<Longrightarrow>
   \<forall>e \<in> set (fst (probe_tables w c tcs entries trace)). ti_columns (snd e) \<noteq> []"
proof (induction tcs arbitrary: entries trace)
  case Nil
  then show ?case by simp
next
  case (Cons tc rest)
  obtain r trace' where p: "probe_table w c (fst tc) (snd tc) trace = (r, trace')"
    by (cases "probe_table w c (fst tc) (snd tc) trace")
  from Cons.prems have "\<forall>e \<in> set (store_table (fst tc) r entries). ti_columns (snd e) \<noteq> []"
    by (rule store_table_columns)
  from Cons.IH [OF this] show ?case by (simp add: p)
qed

lemma via_tools_data_content:
  "data_content (fst (discover_schema_via_tools w c trace)) = data_content c"
  by (simp add: discover_schema_via_tools_def split: prod.splits option.splits)

lemma store_gathered_data_content: "data_content (store_gathered rs g c) = data_content c"
  by (simp add: store_gathered_def Let_def)

lemma discover_schema_data_content:
  "data_content (fst (discover_schema w c trace)) = data_content c"
  by (simp add: discover_schema_def via_tools_data_content store_gathered_data_content
           split: sum.splits prod.splits)

lemma initialize_data_content:
  "data_content (fst (snd (initialize w c force trace))) = data_content c"
proof (cases "initialized c \<and> \<not> force")
  case True
  then show ?thesis by (simp add: initialize_def)
next
  case False
  show ?thesis
  proof (cases "w_list_tools w trace")
    case (Inl msg)
    with False show ?thesis by (auto simp: initialize_def)
  next
    case (Inr listed)
    define c1 where "c1 = c\<lparr>tools := map snd (dict_of_pairs (map (\<lambda>t. (t_name t, t)) listed)),
        tools_description := build_tools_description (map snd (dict_of_pairs (map (\<lambda>t. (t_name t, t)) listed)))\<rparr>"
    obtain c2 tr where d: "discover_schema w c1 (trace @ [ListTools]) = (c2, tr)"
      by (cases "discover_schema w c1 (trace @ [ListTools])")
    have "data_content c2 = data_content c1"
      using discover_schema_data_content [of w c1 "trace @ [ListTools]"] d by simp
    moreover have "data_content c1 = data_content c" by (simp add: c1_def)
    moreover have "initialize w c force trace = (None, c2\<lparr>initialized := True\<rparr>, tr)"
      using False Inr d by (auto simp: initialize_def Let_def c1_def)
    ultimately show ?thesis by simp
  qed
qed

lemma ensure_initialized_data_content:
  "data_content (fst (snd (ensure_initialized w c trace))) = data_content c"
  by (simp add: ensure_initialized_def initialize_data_content)

lemma discover_tables_content_columns:
  assumes "\<forall>e \<in> set (data_content c). ti_columns (snd e) \<noteq> []"
  shows "\<forall>e \<in> set (data_content (fst (snd (discover_tables_content w c wanted trace)))).
           ti_columns (snd e) \<noteq> []"
proof -
  obtain r2 trace2 where t: "tables_to_probe w c wanted trace = (r2, trace2)"
    by (cases "tables_to_probe w c wanted trace")
  show ?thesis
  proof (cases r2)
    case (Inl e)
    with t assms show ?thesis by (simp add: discover_tables_content_def)
  next
    case (Inr twc)
    obtain entries trace3 where p:
      "probe_tables w c twc (data_content c) trace2 = (entries, trace3)"
      by (cases "probe_tables w c twc (data_content c) trace2")
    have "\<forall>e \<in> set entries. ti_columns (snd e) \<noteq> []"
      using probe_tables_columns [of "data_content c" w c twc trace2] p assms by simp
    with Inr t p assms show ?thesis by (simp add: discover_tables_content_def)
  qed
qed

lemma discover_data_content_columns:
  assumes "\<forall>e \<in> set (data_content c). ti_columns (snd e) \<noteq> []"
  shows "\<forall>e \<in> set (data_content (fst (snd (discover_data_content w c wanted force trace)))).
           ti_columns (snd e) \<noteq> []"
proof (cases "data_content_discovered c \<and> \<not> force")
  case True
  with assms show ?thesis by (simp add: discover_data_content_def)
next
  case False
  obtain e0 c1 trace1 where i: "ensure_initialized w c trace = (e0, c1, trace1)"
    by (cases "ensure_initialized w c trace")
  have dc1: "data_content c1 = data_content c"
    using i ensure_initialized_data_content [of w c trace] by simp
  show ?thesis
  proof (cases e0)
    case (Some e)
    with False i dc1 assms show ?thesis by (auto simp: discover_data_content_def)
  next
    case None
    have "\<forall>e \<in> set (data_content (fst (snd (discover_tables_content w c1 wanted trace1)))).
           ti_columns (snd e) \<noteq> []"
      using assms dc1 by (intro discover_tables_content_columns) simp
    with False i None show ?thesis by (auto simp: discover_data_content_def)
  qed
qed

lemma discover_data_content_returns_cache:
  "fst (discover_data_content w c wanted force trace) = Inr entries \<Longrightarrow>
   data_content (fst (snd (discover_data_content w c wanted force trace))) = entries"
  by (auto simp: discover_data_content_def discover_tables_content_def
           split: if_splits prod.splits option.splits sum.splits)

lemma probe_row_count_keeps:
  assumes "probe_row_count w table info trace = (Inr info', t)"
  shows "ti_columns info' = ti_columns info \<and> ti_symbols info' = ti_symbols info
         \<and> ti_symbol_column info' = ti_symbol_column info"
  using assms
  by (auto simp: probe_row_count_def split: prod.splits if_splits sum.splits option.splits)


lemma probe_symbols_keeps:
  assumes "probe_symbols w c table cols info trace = (r, t)"
  shows "\<exists>info'. r = Inr info' \<and> ti_columns info' = ti_columns info
           \<and> ti_row_count info' = ti_row_count info"
  using assms
  by (auto simp: probe_symbols_def Let_def split: prod.splits if_splits list.splits)


lemma probe_symbols_failed:
  assumes "matching_columns (symbol_patterns c) cols = sym_col # others"
    and "run_sql w trace (distinct_query sym_col table) = (r, t)"
    and "\<not> probe_ok r"
  shows "probe_symbols w c table cols info trace = (Inr info, t)"
  using assms by (simp add: probe_symbols_def Let_def)

lemma probe_dates_keeps:
  assumes "probe_dates w c table cols info trace = (Inr info', t)"
  shows "ti_columns info' = ti_columns info \<and> ti_symbols info' = ti_symbols info
         \<and> ti_symbol_column info' = ti_symbol_column info"
  using assms
  by (auto simp: probe_dates_def update_date_info_def
           split: prod.splits if_splits list.splits sum.splits)

lemma probe_dates_failed:
  assumes "matching_columns (date_patterns c) cols = date_col # others"
    and "run_sql w trace (range_query date_col table) = (r, t)"
    and "\<not> probe_ok r"
  shows "probe_dates w c table cols info trace = (Inr info, t)"
  using assms by (simp add: probe_dates_def)



lemma probe_text_keeps:
  "\<exists>info'. fst (probe_text w c table cols info trace) = Inr info'
     \<and> ti_columns info' = ti_columns info \<and> ti_symbols info' = ti_symbols info
     \<and> ti_symbol_column info' = ti_symbol_column info
     \<and> ti_row_count info' = ti_row_count info \<and> ti_date_column info' = ti_date_column info"
  by (auto simp: probe_text_def Let_def split: prod.splits if_splits list.splits)

lemma probe_text_failed:
  assumes "matching_columns (text_patterns c) cols = text_col # others"
    and "run_sql w trace
           (sample_query text_col table
              (case matching_columns (date_patterns c) cols of
                 [] \<Rightarrow> []
               | date_col # later \<Rightarrow> ''ORDER BY '' @ date_col @ '' DESC'')) = (r, t)"
    and "\<not> probe_ok r"
  shows "probe_text w c table cols info trace
         = (Inr (info\<lparr>ti_text_columns := Some (text_col # others)\<rparr>), t)"
  using assms by (simp add: probe_text_def Let_def)

lemma probe_table_columns:
  assumes "fst (probe_table w c table schema_columns trace) = Inr info"
  shows "fst (probe_columns w table schema_columns trace) = Inr (ti_columns info)"
proof -
  obtain r0 t1 where pc: "probe_columns w table schema_columns trace = (r0, t1)"
    by (cases "probe_columns w table schema_columns trace")
  show ?thesis
  proof (cases r0)
    case (Inl e)
    with pc assms show ?thesis by (simp add: probe_table_def and_then_def)
  next
    case (Inr cols)
    obtain r1 t2 where p1: "probe_row_count w table (new_table_info cols) t1 = (r1, t2)"
      by (cases "probe_row_count w table (new_table_info cols) t1")
    show ?thesis
    proof (cases r1)
      case (Inl e)
      with pc Inr p1 assms show ?thesis by (simp add: probe_table_def and_then_def)
    next
      case i1: (Inr info1)
      from p1 i1 have k1: "ti_columns info1 = cols"
        using probe_row_count_keeps [of w table "new_table_info cols" t1 info1 t2]
        by (simp add: new_table_info_def)
      obtain r2 t3 where p2: "probe_symbols w c table cols info1 t2 = (r2, t3)"
        by (cases "probe_symbols w c table cols info1 t2")
      from probe_symbols_keeps [OF p2] obtain info2 where
        i2: "r2 = Inr info2" and k2: "ti_columns info2 = ti_columns info1" by blast
      obtain r3 t4 where p3: "probe_dates w c table cols info2 t3 = (r3, t4)"
        by (cases "probe_dates w c table cols info2 t3")
      show ?thesis
      proof (cases r3)
        case (Inl e)
        with pc Inr p1 i1 p2 i2 p3 assms show ?thesis by (simp add: probe_table_def and_then_def)
      next
        case i3: (Inr info3)
        from p3 i3 have k3: "ti_columns info3 = ti_columns info2"
          using probe_dates_keeps [of w c table cols info2 t3 info3 t4] by simp
        from probe_text_keeps [of w c table cols info3 t4] obtain info4 where
          i4: "fst (probe_text w c table cols info3 t4) = Inr info4"
          and k4: "ti_columns info4 = ti_columns info3" by blast
        have "fst (probe_table w c table schema_columns trace) = Inr info4"
          using pc Inr p1 i1 p2 i2 p3 i3 i4 by (simp add: probe_table_def and_then_def)
        with assms have "info = info4" by simp
        with k1 k2 k3 k4 pc Inr show ?thesis by simp
      qed
    qed
  qed
qed

lemma undetermined_columns_not_stored:
  assumes "fst (probe_columns w table schema_columns trace) = Inr []"
  shows "store_table table (fst (probe_table w c table schema_columns trace)) entries = entries"
proof (cases "fst (probe_table w c table schema_columns trace)")
  case (Inl e)
  then show ?thesis by (simp add: store_table_def)
next
  case (Inr info)
  from probe_table_columns [OF Inr] assms have "ti_columns info = []" by simp
  with Inr show ?thesis by (simp add: store_table_def)
qed
















text \<open>
  C10. If every entry of the cache has a non-empty column list before a run of
  \<^verbatim>\<open>discover_data_content\<close>, so has every entry after it, in the cache of the client and
  in the cache returned; a new client starts with the empty cache. A table whose columns
  are found neither in the schema text nor by the \<^verbatim>\<open>SELECT * ... LIMIT 1\<close> probe leaves
  the cache as it was: nothing of its probes is stored.
\<close>

theorem cached_tables_have_columns:
  "((\<forall>e \<in> set (data_content c). ti_columns (snd e) \<noteq> [])
      \<longrightarrow> (\<forall>e \<in> set (data_content (fst (snd (discover_data_content w c wanted force trace)))).
               ti_columns (snd e) \<noteq> [])
          \<and> (\<forall>entries. fst (discover_data_content w c wanted force trace) = Inr entries
                \<longrightarrow> (\<forall>e \<in> set entries. ti_columns (snd e) \<noteq> [])))
   \<and> data_content (new_client sp dp tp) = []
   \<and> (fst (probe_columns w table schema_columns tr) = Inr []
        \<longrightarrow> store_table table (fst (probe_table w c table schema_columns tr)) entries' = entries')"
proof (intro conjI impI allI)
  assume a: "\<forall>e \<in> set (data_content c). ti_columns (snd e) \<noteq> []"
  then show inv: "\<forall>e \<in> set (data_content (fst (snd (discover_data_content w c wanted force trace)))).
               ti_columns (snd e) \<noteq> []"
    by (rule discover_data_content_columns)
  fix entries assume "fst (discover_data_content w c wanted force trace) = Inr entries"
  from discover_data_content_returns_cache [OF this] inv
  show "\<forall>e \<in> set entries. ti_columns (snd e) \<noteq> []" by simp
next
  show "data_content (new_client sp dp tp) = []" by (simp add: new_client_def)
next
  assume "fst (probe_columns w table schema_columns tr) = Inr []"
  then show "store_table table (fst (probe_table w c table schema_columns tr)) entries' = entries'"
    by (rule undetermined_columns_not_stored)
qed

theorem cached_tables_have_columns_witness:
  "data_content ready_client = []
   \<and> fst (probe_columns probe_world ''ghost'' [] []) = Inr []
   \<and> map fst (data_content (fst (snd (discover_data_content probe_world ready_client None False []))))
       = [''daily'', ''quotes'']
   \<and> list_all (\<lambda>e. ti_columns (snd e) \<noteq> [])
        (data_content (fst (snd (discover_data_content probe_world ready_client None False []))))
   \<and> store_table ''ghost'' (fst (probe_table probe_world ready_client ''ghost'' [] [])) [] = []"
proof -
  have h1: "data_content ready_client = []" by code_simp
  have h2: "fst (probe_columns probe_world ''ghost'' [] []) = Inr []" by code_simp
  have h3: "map fst (data_content (fst (snd (discover_data_content probe_world ready_client None False []))))
       = [''daily'', ''quotes'']" by code_simp
  note T = cached_tables_have_columns
    [where c = ready_client and w = probe_world and wanted = None and force = False
       and trace = "[]" and table = "''ghost''" and schema_columns = "[]" and tr = "[]"
       and entries' = "[]"]
  from h1 have h1': "\<forall>e \<in> set (data_content ready_client). ti_columns (snd e) \<noteq> []" by simp
  from T h1' have c1: "list_all (\<lambda>e. ti_columns (snd e) \<noteq> [])
        (data_content (fst (snd (discover_data_content probe_world ready_client None False []))))"
    unfolding list_all_iff by blast
  from T h2 have c2:
    "store_table ''ghost'' (fst (probe_table probe_world ready_client ''ghost'' [] [])) [] = []"
    by blast
  show ?thesis by (rule conjI [OF h1 conjI [OF h2 conjI [OF h3 conjI [OF c1 c2]]]])
qed

subsection \<open>The planning loop\<close>





lemma count_plans_append: "count_plans (t @ u) = count_plans t + count_plans u"
  by (simp add: count_plans_def)


























subsection \<open>Refreshing the schema\<close>

text \<open>
  C9. \<^verbatim>\<open>refresh_schema\<close> clears the schema text, the additional context, the
  data-content cache and its flag. It does not clear the SQL guidance, and the discovery
  assigns the guidance only when it reads a guidance resource. After a cycle that read a
  guidance resource, a refresh on a server that lists the schema resource only rebuilds
  the schema text and empties the rest, and the guidance of the first cycle is still
  there and still goes into the planning prompt.
\<close>

theorem refresh_schema_keeps_sql_guidance:
  "sql_guidance (fst first_cycle) = ''## kdbx_sql_query_guidance'' @ [NL] @ ''Quote every column''
   \<and> schema_description (fst first_cycle) = ''## kdbx_describe_tables'' @ [NL] @ ''TABLE ANALYSIS: daily''
   \<and> schema_description (fst second_cycle)
       = ''## kdbx_describe_tables'' @ [NL] @ ''TABLE ANALYSIS: trades''
   \<and> additional_context (fst second_cycle) = []
   \<and> data_content (fst second_cycle) = []
   \<and> sql_guidance (fst second_cycle) = ''## kdbx_sql_query_guidance'' @ [NL] @ ''Quote every column''
   \<and> pp_sql_guidance (planning_prompt (fst second_cycle) ''q'' [])
       = ''## kdbx_sql_query_guidance'' @ [NL] @ ''Quote every column''"
  by code_simp

end
